theory Spec2Isabelle
  imports Main "HOL-Library.AList"
begin

section \<open>JavaScript values and built-ins used by the stores\<close>

text \<open>
  Strings are \<^typ>\<open>string\<close>: one \<^typ>\<open>char\<close> per code unit, so the model covers
  the code units below 256. Thrown exceptions are values of \<open>error\<close>: \<open>Error m\<close> is
  \<^verbatim>\<open>new Error(m)\<close> of the source, the other three are raised by the engine
  (a call on a value that is not callable, \<^verbatim>\<open>JSON.parse\<close> on malformed text,
  \<^verbatim>\<open>toISOString\<close> on an invalid Date).
\<close>

datatype error = Error string | TypeError | SyntaxError | RangeError

subsection \<open>String built-ins\<close>

definition startsWith :: "string \<Rightarrow> string \<Rightarrow> bool" where
  "startsWith s p = (take (length p) s = p)"

definition substring :: "string \<Rightarrow> nat \<Rightarrow> string" where
  "substring s n = drop n s"

text \<open>
  \<^verbatim>\<open>String.prototype.trim\<close> removes white space and line terminators at both
  ends: TAB, LF, VT, FF, CR, SP and NBSP among the code units below 256.
\<close>

definition isWhiteSpace :: "char \<Rightarrow> bool" where
  "isWhiteSpace c = (c = CHR 0x09 \<or> c = CHR 0x0A \<or> c = CHR 0x0B \<or> c = CHR 0x0C \<or>
     c = CHR 0x0D \<or> c = CHR 0x20 \<or> c = CHR 0xA0)"

definition trimStart :: "string \<Rightarrow> string" where
  "trimStart s = dropWhile isWhiteSpace s"

definition trim :: "string \<Rightarrow> string" where
  "trim s = rev (dropWhile isWhiteSpace (rev (dropWhile isWhiteSpace s)))"

text \<open>\<^verbatim>\<open>Array.prototype.join\<close> on an array of strings.\<close>

fun join :: "string \<Rightarrow> string list \<Rightarrow> string" where
  "join sep [] = []"
| "join sep [x] = x"
| "join sep (x # y # ys) = x @ sep @ join sep (y # ys)"

subsection \<open>Numbers\<close>

text \<open>
  A Number is identified by the decimal expansion that \<^verbatim>\<open>Number::toString\<close> of
  ECMAScript prints: \<open>Finite neg s n\<close> is the value \<open>\<plusminus> s \<times> 10\<^sup>n\<^sup>-\<^sup>k\<close> where \<open>k\<close> is the
  number of decimal digits of \<open>s\<close>, with \<open>s > 0\<close> not divisible by 10 (so \<open>k\<close> is as
  small as possible). \<open>3.5\<close> is \<open>Finite False 35 1\<close>, \<open>42\<close> is \<open>Finite False 42 2\<close>,
  \<open>1e21\<close> is \<open>Finite False 1 22\<close>. \<open>Zero\<close> is \<open>+0\<close> and \<open>NegZero\<close> is \<open>-0\<close>: two
  values that print alike and that \<^verbatim>\<open>Object.is\<close>, and with it deep equality, tells apart.
  Binary rounding is not part of the model: \<open>Number_of_int\<close> is exact.
\<close>

datatype number = NaN | PosInfinity | NegInfinity | Zero | NegZero | Finite bool nat int


definition digit_char :: "nat \<Rightarrow> char" where
  "digit_char d = char_of (48 + d)"

fun digits :: "nat \<Rightarrow> string" where
  "digits n = (if n < 10 then [digit_char n] else digits (n div 10) @ [digit_char (n mod 10)])"

declare digits.simps [simp del]

definition isDigit :: "char \<Rightarrow> bool" where
  "isDigit c = (48 \<le> (of_char c :: nat) \<and> (of_char c :: nat) \<le> 57)"

definition digit_val :: "char \<Rightarrow> nat" where
  "digit_val c = of_char c - 48"

definition nat_of_digits :: "string \<Rightarrow> nat" where
  "nat_of_digits ds = foldl (\<lambda>acc c. 10 * acc + digit_val c) 0 ds"

fun strip10 :: "nat \<Rightarrow> nat" where
  "strip10 n = (if 0 < n \<and> n mod 10 = 0 then strip10 (n div 10) else n)"

declare strip10.simps [simp del]

definition Number_of_nat :: "bool \<Rightarrow> nat \<Rightarrow> number" where
  "Number_of_nat neg m =
     (if m = 0 then (if neg then NegZero else Zero)
      else Finite neg (strip10 m) (int (length (digits m))))"

definition Number_of_int :: "int \<Rightarrow> number" where
  "Number_of_int i = Number_of_nat (i < 0) (nat \<bar>i\<bar>)"

text \<open>\<^verbatim>\<open>Number::toString\<close> with radix 10, case by case as ECMAScript states it.\<close>

definition exponent_string :: "int \<Rightarrow> string" where
  "exponent_string e = (if e < 0 then ''-'' else ''+'') @ digits (nat \<bar>e\<bar>)"

definition positive_toString :: "nat \<Rightarrow> int \<Rightarrow> string" where
  "positive_toString s n =
     (let ds = digits s; k = int (length ds) in
      if k \<le> n \<and> n \<le> 21 then ds @ replicate (nat (n - k)) (CHR ''0'')
      else if 0 < n \<and> n \<le> 21 then take (nat n) ds @ ''.'' @ drop (nat n) ds
      else if - 6 < n \<and> n \<le> 0 then ''0.'' @ replicate (nat (- n)) (CHR ''0'') @ ds
      else if k = 1 then ds @ ''e'' @ exponent_string (n - 1)
      else take 1 ds @ ''.'' @ drop 1 ds @ ''e'' @ exponent_string (n - 1))"

fun Number_toString :: "number \<Rightarrow> string" where
  "Number_toString NaN = ''NaN''"
| "Number_toString PosInfinity = ''Infinity''"
| "Number_toString NegInfinity = ''-Infinity''"
| "Number_toString Zero = ''0''"
| "Number_toString NegZero = ''0''"
| "Number_toString (Finite neg s n) = (if neg then ''-'' else []) @ positive_toString s n"

text \<open>
  \<^verbatim>\<open>parseInt(string)\<close> with no radix: skip leading white space, read a sign, switch
  to radix 16 after \<^verbatim>\<open>0x\<close>, take the longest prefix of digits; no digit gives NaN, and
  a minus sign before the digits of zero gives \<open>-0\<close>.
\<close>

definition isHexDigit :: "char \<Rightarrow> bool" where
  "isHexDigit c = (isDigit c \<or> (97 \<le> (of_char c :: nat) \<and> (of_char c :: nat) \<le> 102) \<or>
     (65 \<le> (of_char c :: nat) \<and> (of_char c :: nat) \<le> 70))"

definition hex_val :: "char \<Rightarrow> nat" where
  "hex_val c = (if isDigit c then of_char c - 48
                else if 97 \<le> (of_char c :: nat) then of_char c - 87 else of_char c - 55)"

definition nat_of_hex :: "string \<Rightarrow> nat" where
  "nat_of_hex ds = foldl (\<lambda>acc c. 16 * acc + hex_val c) 0 ds"

definition parseInt :: "string \<Rightarrow> number" where
  "parseInt str =
     (let s0 = trimStart str;
          neg = startsWith s0 ''-'';
          s1 = (if startsWith s0 ''-'' \<or> startsWith s0 ''+'' then drop 1 s0 else s0)
      in if startsWith s1 ''0x'' \<or> startsWith s1 ''0X''
         then (let z = takeWhile isHexDigit (drop 2 s1)
               in if z = [] then NaN else Number_of_nat neg (nat_of_hex z))
         else (let z = takeWhile isDigit s1
               in if z = [] then NaN else Number_of_nat neg (nat_of_digits z)))"

definition isNaN :: "number \<Rightarrow> bool" where
  "isNaN x = (x = NaN)"

subsection \<open>Dates\<close>

text \<open>
  A valid Date is represented by the UTC calendar fields that \<^verbatim>\<open>toISOString\<close>
  prints (year, month 1..12, day, hours, minutes, seconds, milliseconds), so
  \<^verbatim>\<open>new Date(0)\<close> is \<open>UTC 1970 1 1 0 0 0 0\<close>. \<open>valid_date\<close> is the invariant of the
  representation: a day that exists, a time of day, and an instant within
  \<open>\<plusminus>8.64e15\<close> ms of the epoch (20 April -271821 to 13 September 275760).
\<close>

datatype date = Invalid_Date | UTC int nat nat nat nat nat nat

definition leap_year :: "int \<Rightarrow> bool" where
  "leap_year y = (y mod 4 = 0 \<and> (y mod 100 \<noteq> 0 \<or> y mod 400 = 0))"

definition days_in_month :: "int \<Rightarrow> nat \<Rightarrow> nat" where
  "days_in_month y m =
     (if m = 2 then (if leap_year y then 29 else 28)
      else if m = 4 \<or> m = 6 \<or> m = 9 \<or> m = 11 then 30 else 31)"

definition in_time_range :: "int \<Rightarrow> nat \<Rightarrow> nat \<Rightarrow> nat \<Rightarrow> nat \<Rightarrow> nat \<Rightarrow> nat \<Rightarrow> bool" where
  "in_time_range y mo d h mi s ms =
     ((- 271821 < y \<or> (y = - 271821 \<and> (4 < mo \<or> (mo = 4 \<and> 20 \<le> d)))) \<and>
      (y < 275760 \<or> (y = 275760 \<and> (mo < 9 \<or> (mo = 9 \<and>
         (d < 13 \<or> (d = 13 \<and> h = 0 \<and> mi = 0 \<and> s = 0 \<and> ms = 0)))))))"

fun valid_date :: "date \<Rightarrow> bool" where
  "valid_date Invalid_Date = False"
| "valid_date (UTC y mo d h mi s ms) =
     (1 \<le> mo \<and> mo \<le> 12 \<and> 1 \<le> d \<and> d \<le> days_in_month y mo \<and>
      h < 24 \<and> mi < 60 \<and> s < 60 \<and> ms < 1000 \<and> in_time_range y mo d h mi s ms)"

definition pad :: "nat \<Rightarrow> nat \<Rightarrow> string" where
  "pad w n = replicate (w - length (digits n)) (CHR ''0'') @ digits n"

text \<open>
  \<^verbatim>\<open>Date.prototype.toISOString\<close>: \<^verbatim>\<open>YYYY-MM-DDTHH:mm:ss.sssZ\<close>, the year with a
  sign and six digits outside 0..9999; RangeError on an invalid Date.
\<close>

definition year_string :: "int \<Rightarrow> string" where
  "year_string y =
     (if 0 \<le> y \<and> y \<le> 9999 then pad 4 (nat y)
      else (if y < 0 then ''-'' else ''+'') @ pad 6 (nat \<bar>y\<bar>))"

fun toISOString :: "date \<Rightarrow> error + string" where
  "toISOString Invalid_Date = Inl RangeError"
| "toISOString (UTC y mo d h mi s ms) =
     Inr (year_string y @ ''-'' @ pad 2 mo @ ''-'' @ pad 2 d @ ''T'' @ pad 2 h @ '':'' @
          pad 2 mi @ '':'' @ pad 2 s @ ''.'' @ pad 3 ms @ ''Z'')"

text \<open>
  \<^verbatim>\<open>new Date(string)\<close>. The model reads the complete date-time form with the
  \<^verbatim>\<open>Z\<close> offset, which is what \<^verbatim>\<open>toISOString\<close> writes. ECMAScript leaves the
  other strings to shorter forms and to implementation-specific fallbacks; those are
  not modelled and give \<open>Invalid_Date\<close> here.
\<close>

definition number_field :: "string \<Rightarrow> nat option" where
  "number_field s = (if s \<noteq> [] \<and> list_all isDigit s then Some (nat_of_digits s) else None)"

definition parse_year :: "string \<Rightarrow> (int \<times> string) option" where
  "parse_year s =
     (if startsWith s ''+'' \<or> startsWith s ''-''
      then (case number_field (take 6 (drop 1 s)) of
              None \<Rightarrow> None
            | Some y \<Rightarrow>
                if length s < 7 \<or> (startsWith s ''-'' \<and> y = 0) then None
                else Some (if startsWith s ''-'' then - int y else int y, drop 7 s))
      else (case number_field (take 4 s) of
              None \<Rightarrow> None
            | Some y \<Rightarrow> if length s < 4 then None else Some (int y, drop 4 s)))"

definition parse_fields :: "int \<Rightarrow> string \<Rightarrow> date" where
  "parse_fields y r =
     (if length r = 20 \<and> r ! 0 = CHR ''-'' \<and> r ! 3 = CHR ''-'' \<and> r ! 6 = CHR ''T'' \<and>
         r ! 9 = CHR '':'' \<and> r ! 12 = CHR '':'' \<and> r ! 15 = CHR ''.'' \<and> r ! 19 = CHR ''Z''
      then (case (number_field (take 2 (drop 1 r)), number_field (take 2 (drop 4 r)),
                  number_field (take 2 (drop 7 r)), number_field (take 2 (drop 10 r)),
                  number_field (take 2 (drop 13 r)), number_field (take 3 (drop 16 r))) of
              (Some mo, Some d, Some h, Some mi, Some s, Some ms) \<Rightarrow>
                if valid_date (UTC y mo d h mi s ms) then UTC y mo d h mi s ms else Invalid_Date
            | _ \<Rightarrow> Invalid_Date)
      else Invalid_Date)"

definition dateFromString :: "string \<Rightarrow> date" where
  "dateFromString s = (case parse_year s of None \<Rightarrow> Invalid_Date | Some (y, r) \<Rightarrow> parse_fields y r)"

subsection \<open>Values\<close>

text \<open>
  The Serializable Values of the stores. An array is the list of its slots from index 0
  to \<^verbatim>\<open>length - 1\<close>: \<open>Some v\<close> is an element, \<open>None\<close> a hole (an index that is no property
  of the array, as in \<^verbatim>\<open>[1, , 2]\<close>). An object is the list of its own enumerable
  string-keyed properties in the order in which \<^verbatim>\<open>Object.entries\<close> and
  \<^verbatim>\<open>JSON.stringify\<close> enumerate them, with distinct keys.
\<close>

datatype jsval =
    JUndefined
  | JNull
  | JBoolean bool
  | JNumber number
  | JString string
  | JDate date
  | JArray "jsval option list"
  | JObject "(string \<times> jsval) list"

fun typeof :: "jsval \<Rightarrow> string" where
  "typeof JUndefined = ''undefined''"
| "typeof (JBoolean b) = ''boolean''"
| "typeof (JNumber n) = ''number''"
| "typeof (JString s) = ''string''"
| "typeof _ = ''object''"

text \<open>\<^verbatim>\<open>Object.fromEntries\<close>: a later entry with the same key replaces the value in place.\<close>

definition fromEntries :: "('k \<times> 'v) list \<Rightarrow> ('k \<times> 'v) list" where
  "fromEntries kvs = foldl (\<lambda>acc (k, v). AList.update k v acc) [] kvs"

subsection \<open>JSON text\<close>

text \<open>
  \<^verbatim>\<open>JSON.stringify\<close> on a value: \<open>None\<close> is the result \<^verbatim>\<open>undefined\<close>. A Date is
  written through its \<^verbatim>\<open>toJSON\<close>, a number that is not finite as \<^verbatim>\<open>null\<close>, a hole
  and an \<^verbatim>\<open>undefined\<close> array element as \<^verbatim>\<open>null\<close>; an \<^verbatim>\<open>undefined\<close> property is left
  out.
\<close>

definition dquote :: char where
  "dquote = CHR 0x22"

definition backslash :: char where
  "backslash = CHR 0x5C"

definition hex_char :: "nat \<Rightarrow> char" where
  "hex_char d = (if d < 10 then char_of (48 + d) else char_of (87 + d))"

definition escape_char :: "char \<Rightarrow> string" where
  "escape_char c =
     (if c = dquote then [backslash, dquote]
      else if c = backslash then [backslash, backslash]
      else if c = CHR 0x08 then [backslash, CHR ''b'']
      else if c = CHR 0x0C then [backslash, CHR ''f'']
      else if c = CHR 0x0A then [backslash, CHR ''n'']
      else if c = CHR 0x0D then [backslash, CHR ''r'']
      else if c = CHR 0x09 then [backslash, CHR ''t'']
      else if (of_char c :: nat) < 32
        then [backslash, CHR ''u'', CHR ''0'', CHR ''0'',
              hex_char (of_char c div 16), hex_char (of_char c mod 16)]
      else [c])"

definition QuoteJSONString :: "string \<Rightarrow> string" where
  "QuoteJSONString s = dquote # concat (map escape_char s) @ [dquote]"

fun isFinite :: "number \<Rightarrow> bool" where
  "isFinite NaN = False"
| "isFinite PosInfinity = False"
| "isFinite NegInfinity = False"
| "isFinite _ = True"

fun JSON_stringify :: "jsval \<Rightarrow> string option"
and stringify_elements :: "jsval option list \<Rightarrow> string list"
and stringify_members :: "(string \<times> jsval) list \<Rightarrow> string list" where
  "JSON_stringify JUndefined = None"
| "JSON_stringify JNull = Some ''null''"
| "JSON_stringify (JBoolean b) = Some (if b then ''true'' else ''false'')"
| "JSON_stringify (JNumber n) = Some (if isFinite n then Number_toString n else ''null'')"
| "JSON_stringify (JString s) = Some (QuoteJSONString s)"
| "JSON_stringify (JDate d) =
     (case toISOString d of Inl e \<Rightarrow> Some ''null'' | Inr s \<Rightarrow> Some (QuoteJSONString s))"
| "JSON_stringify (JArray xs) = Some (''['' @ join '','' (stringify_elements xs) @ '']'')"
| "JSON_stringify (JObject kvs) = Some (''{'' @ join '','' (stringify_members kvs) @ ''}'')"
| "stringify_elements [] = []"
| "stringify_elements (None # xs) = ''null'' # stringify_elements xs"
| "stringify_elements (Some x # xs) =
     (case JSON_stringify x of None \<Rightarrow> ''null'' | Some s \<Rightarrow> s) # stringify_elements xs"
| "stringify_members [] = []"
| "stringify_members ((k, v) # kvs) =
     (case JSON_stringify v of
        None \<Rightarrow> stringify_members kvs
      | Some s \<Rightarrow> (QuoteJSONString k @ '':'' @ s) # stringify_members kvs)"

text \<open>
  \<^verbatim>\<open>JSON.parse\<close>. Each parser takes the text that is left and returns what it read
  with the rest of the text; \<open>None\<close> is a SyntaxError. An escape of a code
  unit above 00FF (four hexadecimal digits after \<^verbatim>\<open>u\<close>) names a code unit outside
  the model and is refused.
\<close>

definition isJSONWhiteSpace :: "char \<Rightarrow> bool" where
  "isJSONWhiteSpace c = (c = CHR 0x09 \<or> c = CHR 0x0A \<or> c = CHR 0x0D \<or> c = CHR 0x20)"

definition skip_ws :: "string \<Rightarrow> string" where
  "skip_ws s = dropWhile isJSONWhiteSpace s"

definition unescape :: "char \<Rightarrow> char option" where
  "unescape e =
     (if e = dquote then Some dquote
      else if e = backslash then Some backslash
      else if e = CHR ''/'' then Some (CHR ''/'')
      else if e = CHR ''b'' then Some (CHR 0x08)
      else if e = CHR ''f'' then Some (CHR 0x0C)
      else if e = CHR ''n'' then Some (CHR 0x0A)
      else if e = CHR ''r'' then Some (CHR 0x0D)
      else if e = CHR ''t'' then Some (CHR 0x09)
      else None)"

fun parse_string :: "string \<Rightarrow> (string \<times> string) option" where
  "parse_string [] = None"
| "parse_string (c # cs) =
     (if c = dquote then Some ([], cs)
      else if c = backslash then
        (case cs of
           [] \<Rightarrow> None
         | e # r \<Rightarrow>
             if e = CHR ''u'' then
               (if 4 \<le> length r \<and> list_all isHexDigit (take 4 r) \<and> nat_of_hex (take 4 r) < 256
                then (case parse_string (drop 4 r) of
                        None \<Rightarrow> None
                      | Some (s, rest) \<Rightarrow> Some (char_of (nat_of_hex (take 4 r)) # s, rest))
                else None)
             else (case unescape e of
                     None \<Rightarrow> None
                   | Some ch \<Rightarrow>
                       (case parse_string r of
                          None \<Rightarrow> None
                        | Some (s, rest) \<Rightarrow> Some (ch # s, rest))))
      else if (of_char c :: nat) < 32 then None
      else (case parse_string cs of None \<Rightarrow> None | Some (s, rest) \<Rightarrow> Some (c # s, rest)))"

text \<open>
  A JSON number: an optional minus, the integer part (a single \<^verbatim>\<open>0\<close>, or digits that
  start with a digit from 1 to 9), an optional fraction and an optional exponent. Its value is the
  number with that decimal expansion; a zero after a minus is \<open>-0\<close>.
\<close>

definition parse_int_part :: "string \<Rightarrow> (string \<times> string) option" where
  "parse_int_part s =
     (case s of
        [] \<Rightarrow> None
      | c # r \<Rightarrow>
          if c = CHR ''0'' then Some (''0'', r)
          else if isDigit c then Some (takeWhile isDigit s, dropWhile isDigit s)
          else None)"

definition parse_frac_part :: "string \<Rightarrow> (string \<times> string) option" where
  "parse_frac_part s =
     (if startsWith s ''.''
      then (if takeWhile isDigit (drop 1 s) = [] then None
            else Some (takeWhile isDigit (drop 1 s), dropWhile isDigit (drop 1 s)))
      else Some ([], s))"

definition parse_exp_part :: "string \<Rightarrow> (int \<times> string) option" where
  "parse_exp_part s =
     (if startsWith s ''e'' \<or> startsWith s ''E''
      then (let neg = startsWith (drop 1 s) ''-'';
                s1 = (if startsWith (drop 1 s) ''-'' \<or> startsWith (drop 1 s) ''+''
                      then drop 2 s else drop 1 s)
            in if takeWhile isDigit s1 = [] then None
               else Some (if neg then - int (nat_of_digits (takeWhile isDigit s1))
                          else int (nat_of_digits (takeWhile isDigit s1)),
                          dropWhile isDigit s1))
      else Some (0, s))"

definition decimal_value :: "bool \<Rightarrow> string \<Rightarrow> string \<Rightarrow> int \<Rightarrow> number" where
  "decimal_value neg ip fp e =
     (let m = nat_of_digits (ip @ fp)
      in if m = 0 then (if neg then NegZero else Zero)
         else Finite neg (strip10 m) (int (length (digits m)) + e - int (length fp)))"

definition parse_unsigned :: "bool \<Rightarrow> string \<Rightarrow> (number \<times> string) option" where
  "parse_unsigned neg s0 =
     (case parse_int_part s0 of
        None \<Rightarrow> None
      | Some (ip, s1) \<Rightarrow>
          (case parse_frac_part s1 of
             None \<Rightarrow> None
           | Some (fp, s2) \<Rightarrow>
               (case parse_exp_part s2 of
                  None \<Rightarrow> None
                | Some (e, s3) \<Rightarrow> Some (decimal_value neg ip fp e, s3))))"

definition parse_number :: "string \<Rightarrow> (number \<times> string) option" where
  "parse_number s =
     (if startsWith s ''-'' then parse_unsigned True (drop 1 s) else parse_unsigned False s)"

text \<open>
  The recursion of the parser is on the length of the text that is left: white space
  is skipped, never added, and \<open>parse_elements\<close> and \<open>parse_members\<close> go on only
  after a comma or colon behind which less text is left than they were given.
\<close>

lemma length_skip_ws: "length (skip_ws s) \<le> length s"
  by (simp add: skip_ws_def length_dropWhile_le)

lemma skip_ws_Cons_shorter: "skip_ws s = c # r \<Longrightarrow> length r < length s"
  using length_skip_ws [of s] by simp

function parse_value :: "string \<Rightarrow> (jsval \<times> string) option"
and parse_elements :: "string \<Rightarrow> (jsval list \<times> string) option"
and parse_members :: "string \<Rightarrow> ((string \<times> jsval) list \<times> string) option" where
  "parse_value s =
     (case skip_ws s of
        [] \<Rightarrow> None
      | c # r \<Rightarrow>
          if c = CHR ''['' then
            (if startsWith (skip_ws r) '']'' then Some (JArray [], drop 1 (skip_ws r))
             else (case parse_elements r of
                     None \<Rightarrow> None
                   | Some (vs, r') \<Rightarrow> Some (JArray (map Some vs), r')))
          else if c = CHR ''{'' then
            (if startsWith (skip_ws r) ''}'' then Some (JObject [], drop 1 (skip_ws r))
             else (case parse_members r of
                     None \<Rightarrow> None
                   | Some (kvs, r') \<Rightarrow> Some (JObject (fromEntries kvs), r')))
          else if c = dquote then
            (case parse_string r of
               None \<Rightarrow> None
             | Some (str, r') \<Rightarrow> Some (JString str, r'))
          else if startsWith (c # r) ''true'' then Some (JBoolean True, drop 4 (c # r))
          else if startsWith (c # r) ''false'' then Some (JBoolean False, drop 5 (c # r))
          else if startsWith (c # r) ''null'' then Some (JNull, drop 4 (c # r))
          else (case parse_number (c # r) of
                  None \<Rightarrow> None
                | Some (n, r') \<Rightarrow> Some (JNumber n, r')))"
| "parse_elements s =
     (case parse_value s of
        None \<Rightarrow> None
      | Some (v, r) \<Rightarrow>
          (case skip_ws r of
             [] \<Rightarrow> None
           | c # r' \<Rightarrow>
               if c = CHR '']'' then Some ([v], r')
               else if c = CHR '','' \<and> length r' < length s then
                 (case parse_elements r' of
                    None \<Rightarrow> None
                  | Some (vs, r'') \<Rightarrow> Some (v # vs, r''))
               else None))"
| "parse_members s =
     (case skip_ws s of
        [] \<Rightarrow> None
      | q # r \<Rightarrow>
          if q = dquote then
            (case parse_string r of
               None \<Rightarrow> None
             | Some (k, r1) \<Rightarrow>
                 (case skip_ws r1 of
                    [] \<Rightarrow> None
                  | c # r2 \<Rightarrow>
                      if c = CHR '':'' \<and> length r2 < length s then
                        (case parse_value r2 of
                           None \<Rightarrow> None
                         | Some (v, r3) \<Rightarrow>
                             (case skip_ws r3 of
                                [] \<Rightarrow> None
                              | d # r4 \<Rightarrow>
                                  if d = CHR ''}'' then Some ([(k, v)], r4)
                                  else if d = CHR '','' \<and> length r4 < length s then
                                    (case parse_members r4 of
                                       None \<Rightarrow> None
                                     | Some (kvs, r5) \<Rightarrow> Some ((k, v) # kvs, r5))
                                  else None))
                      else None))
          else None)"
  by pat_completeness auto

termination
  by (relation "measure (\<lambda>x. case x of
        Inl s \<Rightarrow> 2 * length s
      | Inr (Inl s) \<Rightarrow> 2 * length s + 1
      | Inr (Inr s) \<Rightarrow> 2 * length s + 1)")
    (auto dest: skip_ws_Cons_shorter)

declare parse_value.simps [simp del] parse_elements.simps [simp del] parse_members.simps [simp del]

definition JSON_parse :: "string \<Rightarrow> error + jsval" where
  "JSON_parse s =
     (case parse_value s of
        None \<Rightarrow> Inl SyntaxError
      | Some (v, rest) \<Rightarrow> if skip_ws rest = [] then Inr v else Inl SyntaxError)"

text \<open>
  \<^verbatim>\<open>JSON.parse(text, reviver)\<close>: the parsed value is walked bottom-up, and every
  property value is replaced by what the reviver returns for its key and value; a
  property for which it returns \<^verbatim>\<open>undefined\<close> is deleted (an array element becomes
  a hole). A hole is read as \<^verbatim>\<open>undefined\<close>.
\<close>

fun internalize :: "(string \<Rightarrow> jsval \<Rightarrow> jsval) \<Rightarrow> string \<Rightarrow> jsval \<Rightarrow> jsval"
and internalize_elements ::
  "(string \<Rightarrow> jsval \<Rightarrow> jsval) \<Rightarrow> nat \<Rightarrow> jsval option list \<Rightarrow> jsval option list"
and internalize_entries ::
  "(string \<Rightarrow> jsval \<Rightarrow> jsval) \<Rightarrow> (string \<times> jsval) list \<Rightarrow> (string \<times> jsval) list" where
  "internalize rv name (JArray xs) = rv name (JArray (internalize_elements rv 0 xs))"
| "internalize rv name (JObject kvs) = rv name (JObject (internalize_entries rv kvs))"
| "internalize rv name v = rv name v"
| "internalize_elements rv i [] = []"
| "internalize_elements rv i (None # xs) =
     (case rv (digits i) JUndefined of JUndefined \<Rightarrow> None | v' \<Rightarrow> Some v') #
     internalize_elements rv (Suc i) xs"
| "internalize_elements rv i (Some x # xs) =
     (case internalize rv (digits i) x of JUndefined \<Rightarrow> None | v' \<Rightarrow> Some v') #
     internalize_elements rv (Suc i) xs"
| "internalize_entries rv [] = []"
| "internalize_entries rv ((k, v) # kvs) =
     (case internalize rv k v of
        JUndefined \<Rightarrow> internalize_entries rv kvs
      | v' \<Rightarrow> (k, v') # internalize_entries rv kvs)"

definition JSON_parse_reviver :: "string \<Rightarrow> (string \<Rightarrow> jsval \<Rightarrow> jsval) \<Rightarrow> error + jsval" where
  "JSON_parse_reviver s rv =
     (case JSON_parse s of Inl e \<Rightarrow> Inl e | Inr v \<Rightarrow> Inr (internalize rv [] v))"

section \<open>Key generation and the base store\<close>

text \<open>\<^verbatim>\<open>RedisKeygen<ID>\<close> and \<^verbatim>\<open>DEFAULT_KEYGEN\<close> (interfaces.ts).\<close>

record 'id RedisKeygen =
  keygen_parse :: "string \<Rightarrow> 'id"
  keygen_serialize :: "'id \<Rightarrow> error + string"

definition DEFAULT_KEYGEN :: "jsval RedisKeygen" where
  "DEFAULT_KEYGEN = \<lparr>
     keygen_parse = (\<lambda>key. JString key),
     keygen_serialize = (\<lambda>i. case i of
         JString s \<Rightarrow> Inr s
       | _ \<Rightarrow> Inl (Error (''Could not serialize Redis ID of type '' @ typeof i @
                          '' to valid redis key.''))) \<rparr>"

text \<open>\<^verbatim>\<open>RedisStoreOptions\<close> and the constructor of \<^verbatim>\<open>BaseStore\<close> (base-store.ts).\<close>

record 'id RedisStoreOptions =
  opt_separator :: "string option"
  opt_prefix :: string
  opt_ttl :: "number option"
  opt_keygen :: "'id RedisKeygen option"

record 'id BaseStore =
  SEPARATOR :: string
  NAMESPACE :: string
  PREFIX :: string
  ttl :: "number option"
  keygen :: "'id RedisKeygen"

text \<open>\<^verbatim>\<open>options.separator || ':'\<close>: an absent or empty separator is replaced.\<close>

definition BaseStore_new :: "jsval RedisStoreOptions \<Rightarrow> jsval BaseStore" where
  "BaseStore_new options =
     (let sep = (case opt_separator options of
                   None \<Rightarrow> '':''
                 | Some s \<Rightarrow> if s = [] then '':'' else s)
      in \<lparr> SEPARATOR = sep,
           NAMESPACE = opt_prefix options,
           PREFIX = opt_prefix options @ sep,
           ttl = opt_ttl options,
           keygen = (case opt_keygen options of None \<Rightarrow> DEFAULT_KEYGEN | Some k \<Rightarrow> k) \<rparr>)"

definition serializeKey :: "'id BaseStore \<Rightarrow> 'id \<Rightarrow> error + string" where
  "serializeKey this i = keygen_serialize (keygen this) i"

definition parseKey :: "'id BaseStore \<Rightarrow> string \<Rightarrow> 'id" where
  "parseKey this key = keygen_parse (keygen this) key"

definition prefixKey :: "'id BaseStore \<Rightarrow> string \<Rightarrow> string" where
  "prefixKey this key = (if startsWith key (PREFIX this) then key else PREFIX this @ key)"

definition unPrefixKey :: "'id BaseStore \<Rightarrow> string \<Rightarrow> string" where
  "unPrefixKey this key =
     (if startsWith key (PREFIX this) then substring key (length (PREFIX this)) else key)"

definition toKey :: "'id BaseStore \<Rightarrow> 'id \<Rightarrow> error + string" where
  "toKey this i = (case serializeKey this i of Inl e \<Rightarrow> Inl e | Inr k \<Rightarrow> Inr (prefixKey this k))"

text \<open>\<^verbatim>\<open>ids.map(...)\<close> with a callback that may throw: the first exception ends the map.\<close>

fun mapE :: "('a \<Rightarrow> error + 'b) \<Rightarrow> 'a list \<Rightarrow> error + 'b list" where
  "mapE f [] = Inr []"
| "mapE f (x # xs) =
     (case f x of
        Inl e \<Rightarrow> Inl e
      | Inr y \<Rightarrow> (case mapE f xs of Inl e \<Rightarrow> Inl e | Inr ys \<Rightarrow> Inr (y # ys)))"

definition toKeys :: "'id BaseStore \<Rightarrow> 'id list \<Rightarrow> error + string list" where
  "toKeys this ids = mapE (toKey this) ids"

definition toId :: "'id BaseStore \<Rightarrow> string \<Rightarrow> 'id" where
  "toId this key = parseKey this (unPrefixKey this key)"

definition toIds :: "'id BaseStore \<Rightarrow> string list \<Rightarrow> 'id list" where
  "toIds this ks = map (toId this) ks"

subsection \<open>The store client\<close>

text \<open>
  The Redis client is the collaborator of every store. It is a parameter of the model:
  each command takes the state \<open>'r\<close> of the connection and the server and returns its
  reply (or the rejection of its promise) with the new state. A store function that
  returns the state it was given has therefore issued no command, whatever the client.
\<close>

record SearchOptions =
  LIMIT :: "(nat \<times> number) option"

record 'doc SearchReply =
  total :: nat
  documents :: "(string \<times> 'doc) list"

record ('r, 'doc) RedisClient =
  redis_del :: "string list \<Rightarrow> 'r \<Rightarrow> (error + nat) \<times> 'r"
  redis_keys :: "string \<Rightarrow> 'r \<Rightarrow> (error + string list) \<times> 'r"
  redis_mGet :: "string list \<Rightarrow> 'r \<Rightarrow> (error + string option list) \<times> 'r"
  redis_ft_search :: "string \<Rightarrow> string \<Rightarrow> SearchOptions \<Rightarrow> 'r \<Rightarrow> (error + 'doc SearchReply) \<times> 'r"

subsection \<open>Batch operations of \<^verbatim>\<open>BaseStore\<close>\<close>

definition del ::
  "('r, 'doc) RedisClient \<Rightarrow> 'id BaseStore \<Rightarrow> 'id list \<Rightarrow> 'r \<Rightarrow> (error + nat) \<times> 'r" where
  "del redis this ids r =
     (if length ids = 0 then (Inr 0, r)
      else (case toKeys this ids of
              Inl e \<Rightarrow> (Inl e, r)
            | Inr ks \<Rightarrow> redis_del redis ks r))"

definition keys ::
  "('r, 'doc) RedisClient \<Rightarrow> 'id BaseStore \<Rightarrow> string \<Rightarrow> 'r \<Rightarrow> (error + string list) \<times> 'r" where
  "keys redis this pattern r = redis_keys redis (prefixKey this pattern) r"

text \<open>
  \<^verbatim>\<open>Promise.all(patterns.map((pattern) => this.keys(pattern)))\<close>: every KEYS command
  is issued, in the order of the patterns; the result is the list of the replies, or
  the first rejection.
\<close>

fun keys_all ::
  "('r, 'doc) RedisClient \<Rightarrow> 'id BaseStore \<Rightarrow> string list \<Rightarrow> 'r \<Rightarrow> (error + string list list) \<times> 'r" where
  "keys_all redis this [] r = (Inr [], r)"
| "keys_all redis this (p # ps) r =
     (case keys redis this p r of
        (reply, r') \<Rightarrow>
          (case keys_all redis this ps r' of
             (replies, r'') \<Rightarrow>
               (case reply of
                  Inl e \<Rightarrow> (Inl e, r'')
                | Inr ks \<Rightarrow> (case replies of Inl e \<Rightarrow> (Inl e, r'') | Inr kss \<Rightarrow> (Inr (ks # kss), r'')))))"

definition delPatterns ::
  "('r, 'doc) RedisClient \<Rightarrow> 'id BaseStore \<Rightarrow> string list \<Rightarrow> 'r \<Rightarrow> (error + nat) \<times> 'r" where
  "delPatterns redis this patterns r =
     (if length patterns = 0 then (Inr 0, r)
      else (case keys_all redis this patterns r of
              (Inl e, r') \<Rightarrow> (Inl e, r')
            | (Inr kss, r') \<Rightarrow>
                (let ks = concat kss
                 in if length ks = 0 then (Inr 0, r') else redis_del redis ks r')))"

section \<open>String stores\<close>

text \<open>\<^verbatim>\<open>StringParser<T>\<close> and the multi-get operations of \<^verbatim>\<open>BaseStringStore\<close>.\<close>

record 'v StringParser =
  parser_serialize :: "'v \<Rightarrow> error + string"
  parser_deserialize :: "string \<Rightarrow> error + 'v"

text \<open>\<^verbatim>\<open>v === null ? null : this.valueParser.deserialize(v)\<close>\<close>

definition deserialize_reply :: "'v StringParser \<Rightarrow> string option \<Rightarrow> error + 'v option" where
  "deserialize_reply valueParser v =
     (case v of
        None \<Rightarrow> Inr None
      | Some s \<Rightarrow> (case parser_deserialize valueParser s of Inl e \<Rightarrow> Inl e | Inr x \<Rightarrow> Inr (Some x)))"

definition mGet ::
  "('r, 'doc) RedisClient \<Rightarrow> 'id BaseStore \<Rightarrow> 'v StringParser \<Rightarrow> 'id list \<Rightarrow> 'r \<Rightarrow>
     (error + 'v option list) \<times> 'r" where
  "mGet redis this valueParser ids r =
     (if length ids = 0 then (Inr [], r)
      else (case toKeys this ids of
              Inl e \<Rightarrow> (Inl e, r)
            | Inr ks \<Rightarrow>
                (case redis_mGet redis ks r of
                   (Inl e, r') \<Rightarrow> (Inl e, r')
                 | (Inr vs, r') \<Rightarrow> (mapE (deserialize_reply valueParser) vs, r'))))"

text \<open>The \<^verbatim>\<open>forEach\<close> of \<^verbatim>\<open>mGetClean\<close>: a null reply is skipped.\<close>

fun collect_clean :: "'v StringParser \<Rightarrow> string option list \<Rightarrow> error + 'v list" where
  "collect_clean valueParser [] = Inr []"
| "collect_clean valueParser (None # vs) = collect_clean valueParser vs"
| "collect_clean valueParser (Some s # vs) =
     (case parser_deserialize valueParser s of
        Inl e \<Rightarrow> Inl e
      | Inr x \<Rightarrow> (case collect_clean valueParser vs of Inl e \<Rightarrow> Inl e | Inr xs \<Rightarrow> Inr (x # xs)))"

definition mGetClean ::
  "('r, 'doc) RedisClient \<Rightarrow> 'id BaseStore \<Rightarrow> 'v StringParser \<Rightarrow> 'id list \<Rightarrow> 'r \<Rightarrow>
     (error + 'v list) \<times> 'r" where
  "mGetClean redis this valueParser ids r =
     (if length ids = 0 then (Inr [], r)
      else (case toKeys this ids of
              Inl e \<Rightarrow> (Inl e, r)
            | Inr ks \<Rightarrow>
                (case redis_mGet redis ks r of
                   (Inl e, r') \<Rightarrow> (Inl e, r')
                 | (Inr vs, r') \<Rightarrow> (collect_clean valueParser vs, r'))))"

text \<open>
  The loops of \<^verbatim>\<open>mGetMap\<close> and \<^verbatim>\<open>mGetCleanMap\<close> over \<^verbatim>\<open>i < ids.length\<close>. A
  \<^verbatim>\<open>Map\<close> is the list of its entries in insertion order; \<^verbatim>\<open>map.set\<close> replaces the
  value of a key already there. MGET answers one reply per key; were the reply list
  shorter, \<^verbatim>\<open>values[i]\<close> would be \<^verbatim>\<open>undefined\<close>, which is no string and is outside
  the parsers' domain: the model reports it as \<open>TypeError\<close>.
\<close>

fun fill_map ::
  "'id BaseStore \<Rightarrow> 'v StringParser \<Rightarrow> 'id list \<Rightarrow> string option list \<Rightarrow>
     (string \<times> 'v option) list \<Rightarrow> error + (string \<times> 'v option) list" where
  "fill_map this valueParser [] vs m = Inr m"
| "fill_map this valueParser (i # ids) [] m = Inl TypeError"
| "fill_map this valueParser (i # ids) (v # vs) m =
     (case serializeKey this i of
        Inl e \<Rightarrow> Inl e
      | Inr k \<Rightarrow>
          (case deserialize_reply valueParser v of
             Inl e \<Rightarrow> Inl e
           | Inr x \<Rightarrow> fill_map this valueParser ids vs (AList.update k x m)))"

fun fill_clean_map ::
  "'id BaseStore \<Rightarrow> 'v StringParser \<Rightarrow> 'id list \<Rightarrow> string option list \<Rightarrow>
     (string \<times> 'v) list \<Rightarrow> error + (string \<times> 'v) list" where
  "fill_clean_map this valueParser [] vs m = Inr m"
| "fill_clean_map this valueParser (i # ids) [] m = Inl TypeError"
| "fill_clean_map this valueParser (i # ids) (None # vs) m =
     fill_clean_map this valueParser ids vs m"
| "fill_clean_map this valueParser (i # ids) (Some s # vs) m =
     (case serializeKey this i of
        Inl e \<Rightarrow> Inl e
      | Inr k \<Rightarrow>
          (case parser_deserialize valueParser s of
             Inl e \<Rightarrow> Inl e
           | Inr x \<Rightarrow> fill_clean_map this valueParser ids vs (AList.update k x m)))"

definition mGetMap ::
  "('r, 'doc) RedisClient \<Rightarrow> 'id BaseStore \<Rightarrow> 'v StringParser \<Rightarrow> 'id list \<Rightarrow> 'r \<Rightarrow>
     (error + (string \<times> 'v option) list) \<times> 'r" where
  "mGetMap redis this valueParser ids r =
     (let m = [] in
      if length ids = 0 then (Inr m, r)
      else (case toKeys this ids of
              Inl e \<Rightarrow> (Inl e, r)
            | Inr ks \<Rightarrow>
                (case redis_mGet redis ks r of
                   (Inl e, r') \<Rightarrow> (Inl e, r')
                 | (Inr vs, r') \<Rightarrow> (fill_map this valueParser ids vs m, r'))))"

definition mGetCleanMap ::
  "('r, 'doc) RedisClient \<Rightarrow> 'id BaseStore \<Rightarrow> 'v StringParser \<Rightarrow> 'id list \<Rightarrow> 'r \<Rightarrow>
     (error + (string \<times> 'v) list) \<times> 'r" where
  "mGetCleanMap redis this valueParser ids r =
     (let m = [] in
      if length ids = 0 then (Inr m, r)
      else (case toKeys this ids of
              Inl e \<Rightarrow> (Inl e, r)
            | Inr ks \<Rightarrow>
                (case redis_mGet redis ks r of
                   (Inl e, r') \<Rightarrow> (Inl e, r')
                 | (Inr vs, r') \<Rightarrow> (fill_clean_map this valueParser ids vs m, r'))))"

subsection \<open>The scalar parsers (string-parsers.ts)\<close>

definition stringParser :: "string StringParser" where
  "stringParser = \<lparr> parser_serialize = (\<lambda>v. Inr v), parser_deserialize = (\<lambda>v. Inr v) \<rparr>"

definition numberParser :: "number StringParser" where
  "numberParser = \<lparr>
     parser_serialize = (\<lambda>v. Inr (Number_toString v)),
     parser_deserialize = (\<lambda>v.
       let num = parseInt v
       in if isNaN num then Inl (Error (''Invalid number : '' @ v)) else Inr num) \<rparr>"

definition booleanParser :: "bool StringParser" where
  "booleanParser = \<lparr>
     parser_serialize = (\<lambda>v. Inr (if v then ''true'' else ''false'')),
     parser_deserialize = (\<lambda>v. Inr (v = ''true'')) \<rparr>"

subsection \<open>The object parser\<close>

text \<open>
  The sources hold two versions of \<^verbatim>\<open>objectParser\<close>. \<open>objectParser\<close> is the one of
  \<^verbatim>\<open>src/stores/string/string-parsers.ts\<close>: it tests for \<^verbatim>\<open>undefined\<close> and for the
  sentinel itself, replaces Dates with \<open>recursiveReplace\<close> and restores them in the
  reviver of \<^verbatim>\<open>JSON.parse\<close>. \<^verbatim>\<open>JSON.stringify\<close> returns \<^verbatim>\<open>undefined\<close> on
  \<^verbatim>\<open>undefined\<close> only, which does not reach it here (\<open>recursiveReplace_defined\<close>); the
  model gives that branch a TypeError. \<^verbatim>\<open>Array.prototype.map\<close> does not call its
  function on a hole and leaves the hole in its result.
\<close>

fun recursiveReplace :: "jsval \<Rightarrow> error + jsval"
and recursiveReplace_elements :: "jsval option list \<Rightarrow> error + jsval option list"
and recursiveReplace_entries :: "(string \<times> jsval) list \<Rightarrow> error + (string \<times> jsval) list" where
  "recursiveReplace (JDate d) =
     (case toISOString d of Inl e \<Rightarrow> Inl e | Inr s \<Rightarrow> Inr (JString (''REDIS_DATE:'' @ s)))"
| "recursiveReplace (JArray xs) =
     (case recursiveReplace_elements xs of Inl e \<Rightarrow> Inl e | Inr ys \<Rightarrow> Inr (JArray ys))"
| "recursiveReplace (JObject kvs) =
     (case recursiveReplace_entries kvs of
        Inl e \<Rightarrow> Inl e
      | Inr es \<Rightarrow> Inr (JObject (fromEntries es)))"
| "recursiveReplace v = Inr v"
| "recursiveReplace_elements [] = Inr []"
| "recursiveReplace_elements (None # xs) =
     (case recursiveReplace_elements xs of Inl e \<Rightarrow> Inl e | Inr ys \<Rightarrow> Inr (None # ys))"
| "recursiveReplace_elements (Some x # xs) =
     (case recursiveReplace x of
        Inl e \<Rightarrow> Inl e
      | Inr y \<Rightarrow>
          (case recursiveReplace_elements xs of
             Inl e \<Rightarrow> Inl e
           | Inr ys \<Rightarrow> Inr (Some y # ys)))"
| "recursiveReplace_entries [] = Inr []"
| "recursiveReplace_entries ((k, v) # kvs) =
     (case recursiveReplace v of
        Inl e \<Rightarrow> Inl e
      | Inr y \<Rightarrow>
          (case recursiveReplace_entries kvs of
             Inl e \<Rightarrow> Inl e
           | Inr es \<Rightarrow> Inr ((k, y) # es)))"

definition date_reviver :: "string \<Rightarrow> jsval \<Rightarrow> jsval" where
  "date_reviver key v =
     (case v of
        JString s \<Rightarrow>
          if startsWith s ''REDIS_DATE:''
          then JDate (dateFromString (substring s (length ''REDIS_DATE:'')))
          else v
      | _ \<Rightarrow> v)"

definition objectParser :: "jsval StringParser" where
  "objectParser = \<lparr>
     parser_serialize = (\<lambda>v.
       if typeof v = ''undefined'' then Inr ''REDIS_UNDEFINED''
       else (case recursiveReplace v of
               Inl e \<Rightarrow> Inl e
             | Inr x \<Rightarrow> (case JSON_stringify x of None \<Rightarrow> Inl TypeError | Some s \<Rightarrow> Inr s))),
     parser_deserialize = (\<lambda>s.
       if s = ''REDIS_UNDEFINED'' then Inr JUndefined
       else JSON_parse_reviver s date_reviver) \<rparr>"

text \<open>
  \<open>objectParser_utils\<close> is the other version of \<^verbatim>\<open>objectParser\<close> in the sources, the one
  that imports \<^verbatim>\<open>recursiveParse\<close> and \<^verbatim>\<open>recursiveSerialize\<close> from \<^verbatim>\<open>utils\<close>: the
  sentinel of \<^verbatim>\<open>undefined\<close> is written and read inside the JSON text, at every depth.
  \<open>recursiveParse\<close> on a Date, an object without enumerable properties, is the empty
  object.
\<close>

fun recursiveSerialize :: "jsval \<Rightarrow> error + jsval"
and recursiveSerialize_elements :: "jsval option list \<Rightarrow> error + jsval option list"
and recursiveSerialize_entries :: "(string \<times> jsval) list \<Rightarrow> error + (string \<times> jsval) list" where
  "recursiveSerialize JUndefined = Inr (JString ''REDIS_UNDEFINED'')"
| "recursiveSerialize (JDate d) =
     (case toISOString d of Inl e \<Rightarrow> Inl e | Inr s \<Rightarrow> Inr (JString (''REDIS_DATE:'' @ s)))"
| "recursiveSerialize (JArray xs) =
     (case recursiveSerialize_elements xs of Inl e \<Rightarrow> Inl e | Inr ys \<Rightarrow> Inr (JArray ys))"
| "recursiveSerialize (JObject kvs) =
     (case recursiveSerialize_entries kvs of
        Inl e \<Rightarrow> Inl e
      | Inr es \<Rightarrow> Inr (JObject (fromEntries es)))"
| "recursiveSerialize v = Inr v"
| "recursiveSerialize_elements [] = Inr []"
| "recursiveSerialize_elements (None # xs) =
     (case recursiveSerialize_elements xs of Inl e \<Rightarrow> Inl e | Inr ys \<Rightarrow> Inr (None # ys))"
| "recursiveSerialize_elements (Some x # xs) =
     (case recursiveSerialize x of
        Inl e \<Rightarrow> Inl e
      | Inr y \<Rightarrow>
          (case recursiveSerialize_elements xs of
             Inl e \<Rightarrow> Inl e
           | Inr ys \<Rightarrow> Inr (Some y # ys)))"
| "recursiveSerialize_entries [] = Inr []"
| "recursiveSerialize_entries ((k, v) # kvs) =
     (case recursiveSerialize v of
        Inl e \<Rightarrow> Inl e
      | Inr y \<Rightarrow>
          (case recursiveSerialize_entries kvs of
             Inl e \<Rightarrow> Inl e
           | Inr es \<Rightarrow> Inr ((k, y) # es)))"

fun recursiveParse :: "jsval \<Rightarrow> jsval" where
  "recursiveParse (JString s) =
     (if s = ''REDIS_UNDEFINED'' then JUndefined
      else if startsWith s ''REDIS_DATE:''
      then JDate (dateFromString (substring s (length ''REDIS_DATE:'')))
      else JString s)"
| "recursiveParse (JArray xs) = JArray (map (map_option recursiveParse) xs)"
| "recursiveParse (JObject kvs) =
     JObject (fromEntries (map (\<lambda>kv. (fst kv, recursiveParse (snd kv))) kvs))"
| "recursiveParse (JDate d) = JObject []"
| "recursiveParse v = v"

definition objectParser_utils :: "jsval StringParser" where
  "objectParser_utils = \<lparr>
     parser_serialize = (\<lambda>v.
       case recursiveSerialize v of
         Inl e \<Rightarrow> Inl e
       | Inr x \<Rightarrow> (case JSON_stringify x of None \<Rightarrow> Inl TypeError | Some s \<Rightarrow> Inr s)),
     parser_deserialize = (\<lambda>s.
       case JSON_parse s of Inl e \<Rightarrow> Inl e | Inr v \<Rightarrow> Inr (recursiveParse v)) \<rparr>"


section \<open>The JSON search store\<close>

subsection \<open>Schema, options and construction\<close>

text \<open>
  An entry of \<^verbatim>\<open>JsonSearchSchema\<close> is \<^verbatim>\<open>{ path, ...v }\<close>: the path and the remaining
  properties \<^verbatim>\<open>v\<close> (\<^verbatim>\<open>type\<close> and the field options) in their order. The members of
  \<^verbatim>\<open>SchemaFieldTypes\<close> are the strings \<^verbatim>\<open>'TEXT'\<close>, \<^verbatim>\<open>'NUMERIC'\<close>, \<^verbatim>\<open>'GEO'\<close>,
  \<^verbatim>\<open>'TAG'\<close> and \<^verbatim>\<open>'VECTOR'\<close>.
\<close>

type_synonym props = "(string \<times> string) list"

record SchemaField =
  field_path :: string
  field_props :: props

type_synonym JsonSearchSchema = "(string \<times> SchemaField) list"

definition SchemaFieldTypes_TAG :: string where
  "SchemaFieldTypes_TAG = ''TAG''"

datatype prefix_option = PrefixString string | PrefixArray "string list"

record 'r JsonSearchStoreOptions =
  opt_name :: string
  opt_schema :: JsonSearchSchema
  opt_index_prefix :: "prefix_option option"
  opt_logger_debug :: "(string \<Rightarrow> 'r \<Rightarrow> 'r) option"

record CreateIndexOptions =
  index_ON :: string
  index_PREFIX :: "string list option"

record 'r JsonSearchStore =
  INDEX :: string
  schema :: "(string \<times> props) list"
  createOptions :: CreateIndexOptions
  options :: "'r JsonSearchStoreOptions"

definition JsonSearchStore_new :: "'r JsonSearchStoreOptions \<Rightarrow> 'r JsonSearchStore" where
  "JsonSearchStore_new opts = \<lparr>
     INDEX = opt_name opts,
     schema = fromEntries
       (map (\<lambda>(k, f). (field_path f, AList.update ''AS'' k (field_props f))) (opt_schema opts)),
     createOptions = \<lparr>
       index_ON = ''JSON'',
       index_PREFIX = (case opt_index_prefix opts of
           None \<Rightarrow> None
         | Some (PrefixArray a) \<Rightarrow> Some a
         | Some (PrefixString s) \<Rightarrow> if s = [] then None else Some [s]) \<rparr>,
     options = opts \<rparr>"

subsection \<open>The index definition differ\<close>

text \<open>The reply of FT.INFO: the attributes and the index definition.\<close>

record IndexDefinition =
  key_type :: "string option"
  prefixes :: "string list option"

record IndexInfo =
  attributes :: "props list"
  indexDefinition :: IndexDefinition

definition attrMappings :: "(string \<times> string) list" where
  "attrMappings = [(''type'', ''type''), (''AS'', ''attribute'')]"

text \<open>The two \<^verbatim>\<open>compare\<close> functions of \<^verbatim>\<open>defMappings\<close>, for \<^verbatim>\<open>ON\<close> and \<^verbatim>\<open>PREFIX\<close>.\<close>

definition compare_ON :: "string \<Rightarrow> string option \<Rightarrow> bool" where
  "compare_ON v defValue = (Some v = defValue)"

text \<open>
  \<^verbatim>\<open>value = Array.isArray(value) ? value : [value]\<close> turns an absent \<^verbatim>\<open>PREFIX\<close> into
  \<^verbatim>\<open>[undefined]\<close>; \<^verbatim>\<open>defValue.length\<close> on an absent \<^verbatim>\<open>prefixes\<close> is a TypeError.
\<close>

definition compare_PREFIX :: "string list option \<Rightarrow> string list option \<Rightarrow> error + bool" where
  "compare_PREFIX v defValue =
     (let vs = (case v of Some a \<Rightarrow> map Some a | None \<Rightarrow> [None])
      in case defValue of
           None \<Rightarrow> Inl TypeError
         | Some ds \<Rightarrow> Inr (length vs = length ds \<and> list_all (\<lambda>x. x \<in> set (map Some ds)) vs))"

fun props_changed :: "props \<Rightarrow> props \<Rightarrow> error + bool" where
  "props_changed [] attribute = Inr False"
| "props_changed ((propKey, propValue) # rest) attribute =
     (case map_of attrMappings propKey of
        None \<Rightarrow> Inl (Error (''Index schema key not mapped : '' @ propKey))
      | Some attrKey \<Rightarrow>
          if Some propValue \<noteq> map_of attribute attrKey then Inr True
          else props_changed rest attribute)"

fun attributes_changed ::
  "(string \<times> props) list \<Rightarrow> (string option \<times> props) list \<Rightarrow> error + bool" where
  "attributes_changed [] attrs = Inr False"
| "attributes_changed ((identifier, ps) # rest) attrs =
     (case map_of attrs (Some identifier) of
        None \<Rightarrow> Inr True
      | Some attribute \<Rightarrow>
          (case props_changed ps attribute of
             Inl e \<Rightarrow> Inl e
           | Inr changed \<Rightarrow> if changed then Inr True else attributes_changed rest attrs))"

definition definition_changed :: "CreateIndexOptions \<Rightarrow> IndexDefinition \<Rightarrow> error + bool" where
  "definition_changed co d =
     (if \<not> compare_ON (index_ON co) (key_type d) then Inr True
      else (case compare_PREFIX (index_PREFIX co) (prefixes d) of
              Inl e \<Rightarrow> Inl e
            | Inr same \<Rightarrow> Inr (\<not> same)))"

definition hasIndexChanged :: "'r JsonSearchStore \<Rightarrow> IndexInfo \<Rightarrow> error + bool" where
  "hasIndexChanged this rawInfo =
     (let attrs = fromEntries (map (\<lambda>a. (map_of a ''identifier'', a)) (attributes rawInfo))
      in if length (schema this) \<noteq> length attrs then Inr True
         else (case attributes_changed (schema this) attrs of
                 Inl e \<Rightarrow> Inl e
               | Inr changed \<Rightarrow>
                   if changed then Inr True
                   else definition_changed (createOptions this) (indexDefinition rawInfo)))"

subsection \<open>The query compiler\<close>

text \<open>
  A filter of type \<^verbatim>\<open>WhereInput\<close>: the entries of the object in \<^verbatim>\<open>for ... in\<close> order,
  each value a scalar, one nested filter or an array of nested filters.
\<close>

datatype scalar = SString string | SNumber number | SBoolean bool | SNull | SUndefined

datatype where_value = Scalar scalar | One where_input | Many "where_input list"
and where_input = Where "(string \<times> where_value) list"

text \<open>The string a template literal makes of a value.\<close>

fun String_of_scalar :: "scalar \<Rightarrow> string" where
  "String_of_scalar (SString s) = s"
| "String_of_scalar (SNumber n) = Number_toString n"
| "String_of_scalar (SBoolean b) = (if b then ''true'' else ''false'')"
| "String_of_scalar SNull = ''null''"
| "String_of_scalar SUndefined = ''undefined''"

text \<open>
  An object is converted by its \<^verbatim>\<open>toString\<close>, the one of \<^verbatim>\<open>Object.prototype\<close> unless the
  object has an own property of that name. The values of a filter are no functions, so
  such an own property is not callable, \<^verbatim>\<open>valueOf\<close> gives no primitive either, and the
  conversion is a TypeError. An array is the join of its converted elements.
\<close>

fun String_of_object :: "where_input \<Rightarrow> error + string" where
  "String_of_object (Where kvs) =
     (if map_of kvs ''toString'' = None then Inr ''[object Object]'' else Inl TypeError)"

fun String_of :: "where_value \<Rightarrow> error + string" where
  "String_of (Scalar s) = Inr (String_of_scalar s)"
| "String_of (One w) = String_of_object w"
| "String_of (Many ws) =
     (case mapE String_of_object ws of Inl e \<Rightarrow> Inl e | Inr ss \<Rightarrow> Inr (join '','' ss))"

fun truthy :: "where_value \<Rightarrow> bool" where
  "truthy (Scalar (SString s)) = (s \<noteq> [])"
| "truthy (Scalar (SNumber n)) = (n \<noteq> Zero \<and> n \<noteq> NegZero \<and> n \<noteq> NaN)"
| "truthy (Scalar (SBoolean b)) = b"
| "truthy (Scalar SNull) = False"
| "truthy (Scalar SUndefined) = False"
| "truthy (One w) = True"
| "truthy (Many ws) = True"

definition isTag :: "JsonSearchSchema \<Rightarrow> string \<Rightarrow> bool" where
  "isTag sch key =
     (case map_of sch key of
        None \<Rightarrow> False
      | Some f \<Rightarrow> map_of (field_props f) ''type'' = Some SchemaFieldTypes_TAG)"

definition leaf :: "JsonSearchSchema \<Rightarrow> string \<Rightarrow> where_value \<Rightarrow> error + string" where
  "leaf sch key v =
     (case String_of v of
        Inl e \<Rightarrow> Inl e
      | Inr s \<Rightarrow> Inr (''(@'' @ key @ '':'' @ (if isTag sch key then ''{'' @ s @ ''}'' else s) @ '')''))"

definition OR_error :: error where
  "OR_error = Error ''More than one condition required for OR''"

text \<open>
  \<^verbatim>\<open>buildQuery\<close>. \<open>buildQuery_keys\<close> is the \<^verbatim>\<open>for (const key in where)\<close> loop and
  returns \<^verbatim>\<open>q\<close>; \<open>buildQuery_each\<close> is \<^verbatim>\<open>where[key].map((q) => this.buildQuery(q))\<close>.
  Under \<^verbatim>\<open>AND\<close> and \<^verbatim>\<open>OR\<close> a value that is no array has no \<^verbatim>\<open>map\<close>: the call is a
  TypeError, after the test \<^verbatim>\<open>!where[key].length\<close> of \<^verbatim>\<open>OR\<close>.
\<close>

fun buildQuery :: "JsonSearchSchema \<Rightarrow> where_input \<Rightarrow> error + string"
and buildQuery_keys :: "JsonSearchSchema \<Rightarrow> (string \<times> where_value) list \<Rightarrow> error + string list"
and buildQuery_each :: "JsonSearchSchema \<Rightarrow> where_input list \<Rightarrow> error + string list" where
  "buildQuery sch (Where kvs) =
     (case buildQuery_keys sch kvs of Inl e \<Rightarrow> Inl e | Inr q \<Rightarrow> Inr (join '' '' q))"
| "buildQuery_keys sch [] = Inr []"
| "buildQuery_keys sch ((key, v) # rest) =
     (case
        (if key = ''AND'' then
           (case v of
              Many ws \<Rightarrow>
                (case buildQuery_each sch ws of
                   Inl e \<Rightarrow> Inl e
                 | Inr cs \<Rightarrow> Inr (''('' @ join '' '' cs @ '')''))
            | _ \<Rightarrow> Inl TypeError)
         else if key = ''OR'' then
           (case v of
              Many ws \<Rightarrow>
                if length ws = 0 then Inl OR_error
                else (case buildQuery_each sch ws of
                        Inl e \<Rightarrow> Inl e
                      | Inr cs \<Rightarrow> Inr (''('' @ join '' | '' cs @ '')''))
            | Scalar (SString s) \<Rightarrow> if length s = 0 then Inl OR_error else Inl TypeError
            | Scalar (SNumber n) \<Rightarrow> Inl OR_error
            | Scalar (SBoolean b) \<Rightarrow> Inl OR_error
            | Scalar SNull \<Rightarrow> Inl TypeError
            | Scalar SUndefined \<Rightarrow> Inl TypeError
            | One (Where w) \<Rightarrow>
                (case map_of w ''length'' of
                   None \<Rightarrow> Inl OR_error
                 | Some l \<Rightarrow> if truthy l then Inl TypeError else Inl OR_error))
         else leaf sch key v)
      of
        Inl e \<Rightarrow> Inl e
      | Inr s \<Rightarrow> (case buildQuery_keys sch rest of Inl e \<Rightarrow> Inl e | Inr q \<Rightarrow> Inr (s # q)))"
| "buildQuery_each sch [] = Inr []"
| "buildQuery_each sch (w # ws) =
     (case buildQuery sch w of
        Inl e \<Rightarrow> Inl e
      | Inr s \<Rightarrow> (case buildQuery_each sch ws of Inl e \<Rightarrow> Inl e | Inr cs \<Rightarrow> Inr (s # cs)))"

subsection \<open>Free-text search and \<^verbatim>\<open>query\<close>\<close>

text \<open>\<^verbatim>\<open>text.replace(/ /gm, '*')\<close>: every match of the pattern, a single space, is replaced.\<close>

fun replace_spaces :: "string \<Rightarrow> string" where
  "replace_spaces [] = []"
| "replace_spaces (c # cs) = (if c = CHR '' '' then CHR ''*'' # replace_spaces cs else c # replace_spaces cs)"

text \<open>\<^verbatim>\<open>wildcard?: false\<close> is \<open>None\<close> when the option is absent.\<close>

definition addWildcard :: "bool option \<Rightarrow> string \<Rightarrow> string" where
  "addWildcard wildcard txt =
     (if wildcard = Some False then trim txt
      else ''*'' @ replace_spaces (trim txt) @ ''*'')"

text \<open>
  \<^verbatim>\<open>search?: string | [string, (keyof M)[]]\<close>; \<open>SearchOther t\<close> stands for a truthy value
  of any other shape, with \<open>t\<close> its \<^verbatim>\<open>typeof\<close>.
\<close>

datatype search = SearchText string | SearchFields string "string list" | SearchOther string

record QueryOptions =
  q_search :: "search option"
  q_where :: "where_input option"
  q_limit :: "number option"
  q_wildcard :: "bool option"

definition search_clause :: "QueryOptions \<Rightarrow> error + string list" where
  "search_clause opts =
     (case q_search opts of
        None \<Rightarrow> Inr []
      | Some (SearchText s) \<Rightarrow>
          if s = [] then Inr [] else Inr [''('' @ addWildcard (q_wildcard opts) s @ '')'']
      | Some (SearchFields s ks) \<Rightarrow>
          Inr [''('' @ join '' | ''
                 (map (\<lambda>k. ''(@'' @ k @ '':'' @ addWildcard (q_wildcard opts) s @ '')'') ks) @ '')'']
      | Some (SearchOther t) \<Rightarrow> Inl (Error (''Unsupported search type: '' @ t)))"

definition where_clause :: "'r JsonSearchStore \<Rightarrow> QueryOptions \<Rightarrow> error + string list" where
  "where_clause this opts =
     (case q_where opts of
        None \<Rightarrow> Inr []
      | Some w \<Rightarrow>
          (case buildQuery (opt_schema (options this)) w of Inl e \<Rightarrow> Inl e | Inr s \<Rightarrow> Inr [s]))"

definition search_options :: "QueryOptions \<Rightarrow> SearchOptions" where
  "search_options opts =
     \<lparr> LIMIT = (case q_limit opts of
                  None \<Rightarrow> None
                | Some n \<Rightarrow>
                    if n \<noteq> Zero \<and> n \<noteq> NegZero \<and> n \<noteq> NaN then Some (0, n) else None) \<rparr>"

definition rawQuery ::
  "('r, 'doc) RedisClient \<Rightarrow> 'r JsonSearchStore \<Rightarrow> string \<Rightarrow> SearchOptions \<Rightarrow> 'r \<Rightarrow>
     (error + 'doc SearchReply) \<times> 'r" where
  "rawQuery redis this q so r = redis_ft_search redis (INDEX this) q so r"

definition query ::
  "('r, 'doc) RedisClient \<Rightarrow> 'r JsonSearchStore \<Rightarrow> QueryOptions \<Rightarrow> 'r \<Rightarrow> (error + 'doc list) \<times> 'r" where
  "query redis this opts r =
     (case where_clause this opts of
        Inl e \<Rightarrow> (Inl e, r)
      | Inr a \<Rightarrow>
          (case search_clause opts of
             Inl e \<Rightarrow> (Inl e, r)
           | Inr b \<Rightarrow>
               (let AND = a @ b in
                if length AND = 0 then (Inr [], r)
                else
                  (let q = join '' '' AND;
                       r1 = (case opt_logger_debug (options this) of None \<Rightarrow> r | Some debug \<Rightarrow> debug q r)
                   in case rawQuery redis this q (search_options opts) r1 of
                        (Inl e, r2) \<Rightarrow> (Inl e, r2)
                      | (Inr reply, r2) \<Rightarrow>
                          if length (documents reply) = 0 then (Inr [], r2)
                          else (Inr (map snd (documents reply)), r2)))))"

subsection \<open>A store for the examples\<close>

definition user_store :: "jsval BaseStore" where
  "user_store = BaseStore_new
     \<lparr> opt_separator = None, opt_prefix = ''user'', opt_ttl = None, opt_keygen = None \<rparr>"

text \<open>
  A client that records the commands it is sent, and a search store over it with the
  schema of the examples: \<^verbatim>\<open>status\<close> a text field, \<^verbatim>\<open>tag\<close> a tag field.
\<close>

definition recording_client :: "(string list, jsval) RedisClient" where
  "recording_client = \<lparr>
     redis_del = (\<lambda>ks r. (Inr 0, r @ [''DEL''])),
     redis_keys = (\<lambda>p r. (Inr [], r @ [''KEYS''])),
     redis_mGet = (\<lambda>ks r. (Inr (map (\<lambda>k. None) ks), r @ [''MGET''])),
     redis_ft_search = (\<lambda>i q so r. (Inr \<lparr> total = 0, documents = [] \<rparr>, r @ [''FT.SEARCH''])) \<rparr>"

definition example_schema :: JsonSearchSchema where
  "example_schema =
     [(''status'', \<lparr> field_path = ''$.status'', field_props = [(''type'', ''TEXT'')] \<rparr>),
      (''tag'', \<lparr> field_path = ''$.tag'', field_props = [(''type'', ''TAG'')] \<rparr>)]"

definition example_search_store :: "string list JsonSearchStore" where
  "example_search_store = JsonSearchStore_new
     \<lparr> opt_name = ''idx'', opt_schema = example_schema, opt_index_prefix = None,
       opt_logger_debug = Some (\<lambda>q r. r @ [''debug'']) \<rparr>"

text \<open>
  A search store with the key prefix \<^verbatim>\<open>doc:\<close>, and the FT.INFO reply of an index that was
  created from it.
\<close>

definition prefixed_search_store :: "string list JsonSearchStore" where
  "prefixed_search_store = JsonSearchStore_new
     \<lparr> opt_name = ''idx'', opt_schema = example_schema,
       opt_index_prefix = Some (PrefixString ''doc:''), opt_logger_debug = None \<rparr>"

definition example_info :: "string list \<Rightarrow> IndexInfo" where
  "example_info ps =
     \<lparr> attributes =
         [[(''identifier'', ''$.status''), (''attribute'', ''status''), (''type'', ''TEXT'')],
          [(''identifier'', ''$.tag''), (''attribute'', ''tag''), (''type'', ''TAG'')]],
       indexDefinition = \<lparr> key_type = Some ''JSON'', prefixes = Some ps \<rparr> \<rparr>"

text \<open>The filter \<^verbatim>\<open>{AND: [{status: "active"}, {OR: [{tag: "x"}, {tag: "y"}]}]}\<close>.\<close>

definition example_filter :: where_input where
  "example_filter =
     Where [(''AND'', Many
       [Where [(''status'', Scalar (SString ''active''))],
        Where [(''OR'', Many [Where [(''tag'', Scalar (SString ''x''))],
                             Where [(''tag'', Scalar (SString ''y''))]])]])]"

subsection \<open>The wildcard expansion in the words of the specification\<close>

text \<open>
  "Trim the term, replace internal whitespace runs with \<^verbatim>\<open>*\<close>, and wrap the whole term
  in leading/trailing \<^verbatim>\<open>*\<close>": every maximal run of white space becomes one star.
\<close>

fun collapse_whitespace :: "bool \<Rightarrow> string \<Rightarrow> string" where
  "collapse_whitespace in_run [] = []"
| "collapse_whitespace in_run (c # cs) =
     (if isWhiteSpace c
      then (if in_run then collapse_whitespace True cs else CHR ''*'' # collapse_whitespace True cs)
      else c # collapse_whitespace False cs)"

definition wildcard_spec :: "string \<Rightarrow> string" where
  "wildcard_spec txt = ''*'' @ collapse_whitespace False (trim txt) @ ''*''"

subsection \<open>Shapes of filters\<close>

text \<open>
  \<open>printable v\<close>: the value has a string conversion, no object in it having an own
  property \<^verbatim>\<open>toString\<close>. \<open>filter_expression\<close>: every \<^verbatim>\<open>AND\<close> and \<^verbatim>\<open>OR\<close> of the filter
  holds an array of filters and every leaf a printable value, as the Filter Expression
  of the specification does. \<open>has_empty_OR\<close>: some \<^verbatim>\<open>OR\<close> of the filter, at any depth
  below \<^verbatim>\<open>AND\<close> and \<^verbatim>\<open>OR\<close> arrays, holds the empty array.
\<close>

fun no_toString :: "where_input \<Rightarrow> bool" where
  "no_toString (Where kvs) = (map_of kvs ''toString'' = None)"

fun printable :: "where_value \<Rightarrow> bool" where
  "printable (Scalar s) = True"
| "printable (One w) = no_toString w"
| "printable (Many ws) = list_all no_toString ws"

fun filter_expression :: "where_input \<Rightarrow> bool"
and filter_expression_keys :: "(string \<times> where_value) list \<Rightarrow> bool"
and filter_expression_each :: "where_input list \<Rightarrow> bool" where
  "filter_expression (Where kvs) = filter_expression_keys kvs"
| "filter_expression_keys [] = True"
| "filter_expression_keys ((key, v) # rest) =
     ((if key = ''AND'' \<or> key = ''OR''
       then (case v of Many ws \<Rightarrow> filter_expression_each ws | _ \<Rightarrow> False)
       else printable v) \<and> filter_expression_keys rest)"
| "filter_expression_each [] = True"
| "filter_expression_each (w # ws) = (filter_expression w \<and> filter_expression_each ws)"

fun has_empty_OR :: "where_input \<Rightarrow> bool"
and has_empty_OR_keys :: "(string \<times> where_value) list \<Rightarrow> bool"
and has_empty_OR_each :: "where_input list \<Rightarrow> bool" where
  "has_empty_OR (Where kvs) = has_empty_OR_keys kvs"
| "has_empty_OR_keys [] = False"
| "has_empty_OR_keys ((key, v) # rest) =
     ((if key = ''AND'' then (case v of Many ws \<Rightarrow> has_empty_OR_each ws | _ \<Rightarrow> False)
       else if key = ''OR'' then (case v of Many ws \<Rightarrow> ws = [] \<or> has_empty_OR_each ws | _ \<Rightarrow> False)
       else False) \<or> has_empty_OR_keys rest)"
| "has_empty_OR_each [] = False"
| "has_empty_OR_each (w # ws) = (has_empty_OR w \<or> has_empty_OR_each ws)"

subsection \<open>Notions used in the proofs about JSON text\<close>





subsection \<open>The values that the object parsers give back\<close>

text \<open>
  \<open>round_trip p v\<close> is \<^verbatim>\<open>p.deserialize(p.serialize(v))\<close>. \<open>clean v\<close>: the numbers of
  \<open>v\<close> are finite and none is \<open>-0\<close>, its Dates are valid, its arrays have no hole, the
  keys of each object are distinct (as they are in every object), no string starts with
  \<^verbatim>\<open>REDIS_DATE:\<close>, and \<^verbatim>\<open>undefined\<close> does not occur. \<open>clean_utils v\<close> allows
  \<^verbatim>\<open>undefined\<close> as an array element, as a property value and as \<open>v\<close> itself, and
  excludes the string \<^verbatim>\<open>REDIS_UNDEFINED\<close> instead.
\<close>

definition round_trip :: "'v StringParser \<Rightarrow> 'v \<Rightarrow> error + 'v" where
  "round_trip p v =
     (case parser_serialize p v of Inl e \<Rightarrow> Inl e | Inr s \<Rightarrow> parser_deserialize p s)"



section \<open>Properties\<close>

subsection \<open>Key prefixing\<close>

lemma startsWith_append: "startsWith (p @ k) p"
  by (simp add: startsWith_def)

lemma prefixKey_starts: "startsWith (prefixKey this k) (PREFIX this)"
  by (simp add: prefixKey_def startsWith_append)

lemma prefixKey_idem: "prefixKey this (prefixKey this k) = prefixKey this k"
  using prefixKey_starts [of this k] by (simp add: prefixKey_def)

lemma unPrefixKey_prefixKey:
  "\<not> startsWith k (PREFIX this) \<Longrightarrow> unPrefixKey this (prefixKey this k) = k"
  by (simp add: prefixKey_def unPrefixKey_def startsWith_append substring_def)

lemma PREFIX_new_nonempty: "PREFIX (BaseStore_new opts) \<noteq> []"
  by (simp add: BaseStore_new_def Let_def split: option.splits)

lemma unPrefixKey_fixed:
  assumes "startsWith k (PREFIX this)" "PREFIX this \<noteq> []"
  shows "unPrefixKey this k \<noteq> k"
proof -
  from assms have "k \<noteq> []" by (auto simp: startsWith_def)
  with assms(2) have "length (drop (length (PREFIX this)) k) < length k" by simp
  then have "drop (length (PREFIX this)) k \<noteq> k" by (metis less_irrefl)
  with assms(1) show ?thesis by (simp add: unPrefixKey_def substring_def)
qed

lemma toKey_default:
  "opt_keygen opts = None \<Longrightarrow>
   toKey (BaseStore_new opts) (JString i) = Inr (prefixKey (BaseStore_new opts) i)"
  by (simp add: toKey_def serializeKey_def BaseStore_new_def Let_def DEFAULT_KEYGEN_def)

lemma toId_default:
  "opt_keygen opts = None \<Longrightarrow>
   toId (BaseStore_new opts) k = JString (unPrefixKey (BaseStore_new opts) k)"
  by (simp add: toId_def parseKey_def BaseStore_new_def Let_def DEFAULT_KEYGEN_def)

text \<open>
  C9. Prefixing a key is idempotent, and un-prefixing undoes it on every key that does not
  already start with the store prefix. With the default keygen, \<open>toId\<close> after \<open>toKey\<close>
  gives the id back exactly for the ids that do not start with the prefix, and such an id
  and the prefix followed by it are two ids with one store key.
\<close>

theorem prefixKey_idempotent_and_inverse:
  "prefixKey st (prefixKey st k) = prefixKey st k \<and>
   (\<not> startsWith k (PREFIX st) \<longrightarrow> unPrefixKey st (prefixKey st k) = k) \<and>
   (opt_keygen opts = None \<longrightarrow>
      toKey (BaseStore_new opts) (JString i) = Inr (prefixKey (BaseStore_new opts) i) \<and>
      ((toId (BaseStore_new opts) (prefixKey (BaseStore_new opts) i) = JString i) =
         (\<not> startsWith i (PREFIX (BaseStore_new opts)))) \<and>
      (\<not> startsWith i (PREFIX (BaseStore_new opts)) \<longrightarrow>
         toKey (BaseStore_new opts) (JString (PREFIX (BaseStore_new opts) @ i)) =
           toKey (BaseStore_new opts) (JString i) \<and>
         PREFIX (BaseStore_new opts) @ i \<noteq> i))"
proof (intro conjI impI)
  show "prefixKey st (prefixKey st k) = prefixKey st k" by (rule prefixKey_idem)
next
  assume "\<not> startsWith k (PREFIX st)"
  then show "unPrefixKey st (prefixKey st k) = k" by (rule unPrefixKey_prefixKey)
next
  assume "opt_keygen opts = None"
  then show "toKey (BaseStore_new opts) (JString i) = Inr (prefixKey (BaseStore_new opts) i)"
    by (rule toKey_default)
next
  assume d: "opt_keygen opts = None"
  let ?S = "BaseStore_new opts"
  show "(toId ?S (prefixKey ?S i) = JString i) = (\<not> startsWith i (PREFIX ?S))"
  proof (cases "startsWith i (PREFIX ?S)")
    case True
    then have "prefixKey ?S i = i" by (simp add: prefixKey_def)
    moreover have "unPrefixKey ?S i \<noteq> i"
      using True PREFIX_new_nonempty by (rule unPrefixKey_fixed)
    ultimately show ?thesis using True d by (simp add: toId_default)
  next
    case False
    then show ?thesis using d by (simp add: toId_default unPrefixKey_prefixKey)
  qed
next
  assume d: "opt_keygen opts = None" and n: "\<not> startsWith i (PREFIX (BaseStore_new opts))"
  let ?S = "BaseStore_new opts"
  have "prefixKey ?S (PREFIX ?S @ i) = PREFIX ?S @ i"
    by (simp add: prefixKey_def startsWith_append)
  moreover have "prefixKey ?S i = PREFIX ?S @ i" using n by (simp add: prefixKey_def)
  ultimately show "toKey ?S (JString (PREFIX ?S @ i)) = toKey ?S (JString i)"
    using d by (simp add: toKey_default)
next
  show "PREFIX (BaseStore_new opts) @ i \<noteq> i"
    using PREFIX_new_nonempty [of opts] by simp
qed

theorem prefixKey_idempotent_and_inverse_witness:
  "prefixKey user_store (prefixKey user_store ''1'') = prefixKey user_store ''1'' \<and>
   \<not> startsWith ''1'' (PREFIX user_store) \<and>
   unPrefixKey user_store (prefixKey user_store ''1'') = ''1'' \<and>
   toKey user_store (JString ''1'') = Inr ''user:1'' \<and>
   toId user_store ''user:1'' = JString ''1'' \<and>
   toKey user_store (JString ''user:1'') = Inr ''user:1'' \<and>
   toId user_store ''user:1'' \<noteq> JString ''user:1''"
  using prefixKey_idempotent_and_inverse [of user_store "''1''"
      "\<lparr> opt_separator = None, opt_prefix = ''user'', opt_ttl = None, opt_keygen = None \<rparr>" "''1''"]
  by (simp add: user_store_def BaseStore_new_def prefixKey_def unPrefixKey_def startsWith_def
      substring_def toKey_def toId_def serializeKey_def parseKey_def DEFAULT_KEYGEN_def Let_def)

subsection \<open>Batch operations on no ids\<close>

text \<open>
  C10. Every batch operation called with no ids (or no patterns) returns its neutral
  result and the state it was given, for every client: no command is issued.
\<close>

theorem empty_batch_short_circuits:
  "del redis this [] r = (Inr 0, r) \<and>
   delPatterns redis this [] r = (Inr 0, r) \<and>
   mGet redis this valueParser [] r = (Inr [], r) \<and>
   mGetClean redis this valueParser [] r = (Inr [], r) \<and>
   mGetMap redis this valueParser [] r = (Inr [], r) \<and>
   mGetCleanMap redis this valueParser [] r = (Inr [], r)"
  by (simp add: del_def delPatterns_def mGet_def mGetClean_def mGetMap_def mGetCleanMap_def)

lemma del_issues_command:
  "del recording_client user_store [JString ''1''] [] = (Inr 0, [''DEL''])"
  by code_simp

subsection \<open>The empty query\<close>

text \<open>
  C8. \<open>query\<close> with neither \<^verbatim>\<open>where\<close> nor \<^verbatim>\<open>search\<close> returns the empty list, raises
  nothing and leaves the state as it was: no search command, and nothing logged.
\<close>

theorem query_empty:
  "q_where opts = None \<Longrightarrow> q_search opts = None \<Longrightarrow> query redis this opts r = (Inr [], r)"
  by (simp add: query_def where_clause_def search_clause_def)

theorem query_empty_witness:
  "query recording_client example_search_store
     \<lparr> q_search = None, q_where = None, q_limit = None, q_wildcard = None \<rparr> [] = (Inr [], [])"
  using query_empty [of "\<lparr> q_search = None, q_where = None, q_limit = None, q_wildcard = None \<rparr>"
      recording_client example_search_store "[]"]
  by simp

lemma query_search_issues_command:
  "query recording_client example_search_store
     \<lparr> q_search = Some (SearchText ''a''), q_where = None, q_limit = None, q_wildcard = None \<rparr> [] =
   (Inr [], [''debug'', ''FT.SEARCH''])"
  by code_simp

subsection \<open>Wildcard expansion\<close>

lemma replace_spaces_map:
  "replace_spaces s = map (\<lambda>c. if c = CHR '' '' then CHR ''*'' else c) s"
  by (induction s) simp_all

text \<open>
  C6, as stated, fails on a term with two adjacent spaces: the code writes one star for
  each space, the claim one star for the run.
\<close>

theorem addWildcard_run_counterexample:
  "addWildcard None ''hello  world'' = ''*hello**world*'' \<and>
   wildcard_spec ''hello  world'' = ''*hello*world*'' \<and>
   addWildcard None ''hello  world'' \<noteq> wildcard_spec ''hello  world''"
  by code_simp

text \<open>
  C6, amended. Unless \<^verbatim>\<open>wildcard\<close> is \<^verbatim>\<open>false\<close>, the result is the trimmed term with
  each space character replaced by one star, between two stars; the other characters,
  other white space included, are kept. With \<^verbatim>\<open>wildcard: false\<close> the result is the
  trimmed term.
\<close>

theorem addWildcard_replaces_each_space:
  "addWildcard None t =
     ''*'' @ map (\<lambda>c. if c = CHR '' '' then CHR ''*'' else c) (trim t) @ ''*'' \<and>
   addWildcard (Some True) t =
     ''*'' @ map (\<lambda>c. if c = CHR '' '' then CHR ''*'' else c) (trim t) @ ''*'' \<and>
   addWildcard (Some False) t = trim t \<and>
   addWildcard None ''hello world'' = ''*hello*world*'' \<and>
   addWildcard (Some False) '' hello world '' = ''hello world''"
proof -
  have "addWildcard None ''hello world'' = ''*hello*world*''" by code_simp
  moreover have "addWildcard (Some False) '' hello world '' = ''hello world''" by code_simp
  ultimately show ?thesis by (simp add: addWildcard_def replace_spaces_map)
qed

subsection \<open>Comparing the key prefixes of an index\<close>

text \<open>
  C7, as stated, fails on lists with a repeated prefix: \<^verbatim>\<open>['a', 'a']\<close> against
  \<^verbatim>\<open>['a', 'b']\<close> compares as unchanged though the sets differ, and \<^verbatim>\<open>['a']\<close> against
  \<^verbatim>\<open>['a', 'a']\<close> compares as changed though the sets are equal.
\<close>

theorem compare_PREFIX_duplicates_counterexample:
  "compare_PREFIX (Some [''a'', ''a'']) (Some [''a'', ''b'']) = Inr True \<and>
   set [''a'', ''a''] \<noteq> set [''a'', ''b''] \<and>
   compare_PREFIX (Some [''a'']) (Some [''a'', ''a'']) = Inr False \<and>
   set [''a''] = set [''a'', ''a'']"
  by (simp add: compare_PREFIX_def)

lemma compare_PREFIX_arrays:
  "compare_PREFIX (Some vs) (Some ds) = Inr (length vs = length ds \<and> set vs \<subseteq> set ds)"
  by (auto simp: compare_PREFIX_def list_all_iff)

lemma same_length_subset_iff:
  assumes "distinct vs" "distinct ds"
  shows "(length vs = length ds \<and> set vs \<subseteq> set ds) = (set vs = set ds)"
proof
  assume a: "length vs = length ds \<and> set vs \<subseteq> set ds"
  then have "card (set ds) \<le> card (set vs)"
    using assms by (simp add: distinct_card)
  with a show "set vs = set ds"
    by (simp add: card_seteq)
next
  assume "set vs = set ds"
  then show "length vs = length ds \<and> set vs \<subseteq> set ds"
    using assms by (metis distinct_card order_refl)
qed

text \<open>
  C7, amended. For declared and live prefix lists without repeated entries, the
  comparison is set equality, whatever the order; the differ then reports a change of
  the definition of a JSON index exactly when the two sets differ.
\<close>

theorem compare_PREFIX_set_equality:
  assumes "distinct vs" and "distinct ds"
  shows "compare_PREFIX (Some vs) (Some ds) = Inr (set vs = set ds) \<and>
         definition_changed \<lparr> index_ON = ''JSON'', index_PREFIX = Some vs \<rparr>
           \<lparr> key_type = Some ''JSON'', prefixes = Some ds \<rparr> = Inr (set vs \<noteq> set ds)"
  using same_length_subset_iff [OF assms]
  by (simp add: compare_PREFIX_arrays definition_changed_def compare_ON_def)

theorem compare_PREFIX_set_equality_witness:
  "distinct [''a:'', ''b:''] \<and> distinct [''b:'', ''a:''] \<and>
   compare_PREFIX (Some [''a:'', ''b:'']) (Some [''b:'', ''a:'']) = Inr True \<and>
   definition_changed \<lparr> index_ON = ''JSON'', index_PREFIX = Some [''a:'', ''b:''] \<rparr>
     \<lparr> key_type = Some ''JSON'', prefixes = Some [''b:'', ''a:''] \<rparr> = Inr False"
  using compare_PREFIX_set_equality [of "[''a:'', ''b:'']" "[''b:'', ''a:'']"]
  by auto

text \<open>The differ as a whole, on the replies of FT.INFO for the example store.\<close>

lemma hasIndexChanged_definition:
  assumes "length (schema this) =
      length (fromEntries (map (\<lambda>a. (map_of a ''identifier'', a)) (attributes rawInfo)))"
    and "attributes_changed (schema this)
      (fromEntries (map (\<lambda>a. (map_of a ''identifier'', a)) (attributes rawInfo))) = Inr False"
  shows "hasIndexChanged this rawInfo =
      definition_changed (createOptions this) (indexDefinition rawInfo)"
  using assms by (simp add: hasIndexChanged_def Let_def)

lemma hasIndexChanged_examples:
  "hasIndexChanged prefixed_search_store (example_info [''doc:'']) = Inr False"
  "hasIndexChanged prefixed_search_store (example_info [''other:'']) = Inr True"
  "hasIndexChanged prefixed_search_store (example_info [''doc:'', ''other:'']) = Inr True"
  "hasIndexChanged example_search_store (example_info ['''']) = Inr True"
  by code_simp+

subsection \<open>Compiling filters\<close>

lemma String_of_object_printable:
  "no_toString w \<Longrightarrow> String_of_object w = Inr ''[object Object]''"
  by (cases w) simp

lemma mapE_String_of_object:
  "list_all no_toString ws \<Longrightarrow>
   mapE String_of_object ws = Inr (map (\<lambda>w. ''[object Object]'') ws)"
  by (induction ws) (simp_all add: String_of_object_printable)

lemma String_of_printable: "printable v \<Longrightarrow> \<exists>s. String_of v = Inr s"
  by (cases v) (simp_all add: String_of_object_printable mapE_String_of_object)

lemma leaf_printable: "printable v \<Longrightarrow> \<exists>s. leaf sch key v = Inr s"
  using String_of_printable [of v] by (auto simp: leaf_def)

lemma buildQuery_leaf:
  "key \<noteq> ''AND'' \<Longrightarrow> key \<noteq> ''OR'' \<Longrightarrow>
   buildQuery sch (Where [(key, v)]) = leaf sch key v"
  by (cases "leaf sch key v") simp_all

lemma buildQuery_AND:
  "buildQuery_each sch ws = Inr cs \<Longrightarrow>
   buildQuery sch (Where [(''AND'', Many ws)]) = Inr (''('' @ join '' '' cs @ '')'')"
  by simp

lemma buildQuery_OR:
  "ws \<noteq> [] \<Longrightarrow> buildQuery_each sch ws = Inr cs \<Longrightarrow>
   buildQuery sch (Where [(''OR'', Many ws)]) = Inr (''('' @ join '' | '' cs @ '')'')"
  by simp

lemma empty_OR_fails:
  "has_empty_OR w \<Longrightarrow> \<exists>e. buildQuery sch w = Inl e"
  "has_empty_OR_keys kvs \<Longrightarrow> \<exists>e. buildQuery_keys sch kvs = Inl e"
  "has_empty_OR_each ws \<Longrightarrow> \<exists>e. buildQuery_each sch ws = Inl e"
proof (induction sch w and sch kvs and sch ws
    rule: buildQuery_buildQuery_keys_buildQuery_each.induct)
  case (1 sch kvs)
  then show ?case by (auto split: sum.splits)
next
  case (2 sch)
  then show ?case by simp
next
  case (3 sch key v rest)
  then show ?case
    by (cases v) (force split: sum.splits if_splits)+
next
  case (4 sch)
  then show ?case by simp
next
  case (5 sch w ws)
  then show ?case by (auto split: sum.splits)
qed

lemma filter_expression_errors:
  "filter_expression w \<Longrightarrow> buildQuery sch w = Inl e \<Longrightarrow> e = OR_error"
  "filter_expression_keys kvs \<Longrightarrow> buildQuery_keys sch kvs = Inl e \<Longrightarrow> e = OR_error"
  "filter_expression_each ws \<Longrightarrow> buildQuery_each sch ws = Inl e \<Longrightarrow> e = OR_error"
proof (induction sch w and sch kvs and sch ws arbitrary: e and e and e
    rule: buildQuery_buildQuery_keys_buildQuery_each.induct)
  case (1 sch kvs)
  then show ?case by (auto split: sum.splits)
next
  case (2 sch)
  then show ?case by simp
next
  case (3 sch key v rest)
  show ?case
  proof (cases "key = ''AND'' \<or> key = ''OR''")
    case True
    with 3 show ?thesis
      by (cases v) (auto split: sum.splits if_splits)
  next
    case False
    with 3(4) have "printable v" by simp
    then obtain s where s: "leaf sch key v = Inr s"
      using leaf_printable by blast
    with False 3 show ?thesis
      by (auto split: sum.splits)
  qed
next
  case (4 sch)
  then show ?case by simp
next
  case (5 sch w ws)
  then show ?case by (auto split: sum.splits)
qed

text \<open>
  A leaf whose value is an object with an own property \<^verbatim>\<open>toString\<close> throws before the
  rest of the filter is looked at; any other object is printed as \<^verbatim>\<open>[object Object]\<close>.
\<close>

lemma leaf_toString:
  "buildQuery example_schema
     (Where [(''status'', One (Where [(''toString'', Scalar SNull)])), (''OR'', Many [])]) =
   Inl TypeError"
  "buildQuery example_schema (Where [(''status'', One (Where [])), (''OR'', Many [])]) =
   Inl OR_error"
  "buildQuery example_schema (Where [(''tag'', Many [Where [], Where []])]) =
   Inr ''(@tag:{[object Object],[object Object]})''"
  by code_simp+

text \<open>
  C4. With \<^verbatim>\<open>tag\<close> a tag field and \<^verbatim>\<open>status\<close> not one, the filter
  \<^verbatim>\<open>{AND: [{status: "active"}, {OR: [{tag: "x"}, {tag: "y"}]}]}\<close> compiles to
  \<^verbatim>\<open>((@status:active) ((@tag:{x}) | (@tag:{y})))\<close>. The grammar behind it: a leaf is
  \<^verbatim>\<open>(@field:value)\<close> with the value in braces for a tag field; \<^verbatim>\<open>AND\<close> joins its
  compiled children with one space, \<^verbatim>\<open>OR\<close> with \<^verbatim>\<open> | \<close>, each inside one pair of
  parentheses.
\<close>

theorem buildQuery_example:
  assumes "isTag sch ''tag''" and "\<not> isTag sch ''status''"
  shows "buildQuery sch example_filter = Inr ''((@status:active) ((@tag:{x}) | (@tag:{y})))'' \<and>
         buildQuery sch (Where [(''tag'', Scalar (SString v))]) = Inr (''(@tag:{'' @ v @ ''})'') \<and>
         buildQuery sch (Where [(''status'', Scalar (SString v))]) = Inr (''(@status:'' @ v @ '')'') \<and>
         (buildQuery_each sch ws = Inr cs \<longrightarrow>
            buildQuery sch (Where [(''AND'', Many ws)]) = Inr (''('' @ join '' '' cs @ '')'') \<and>
            (ws \<noteq> [] \<longrightarrow>
               buildQuery sch (Where [(''OR'', Many ws)]) = Inr (''('' @ join '' | '' cs @ '')'')))"
  using assms by (simp add: example_filter_def leaf_def)

theorem buildQuery_example_witness:
  "isTag example_schema ''tag'' \<and> \<not> isTag example_schema ''status'' \<and>
   buildQuery example_schema example_filter =
     Inr ''((@status:active) ((@tag:{x}) | (@tag:{y})))'' \<and>
   buildQuery_each example_schema [Where [(''tag'', Scalar (SString ''x''))]] = Inr [''(@tag:{x})''] \<and>
   buildQuery example_schema (Where [(''OR'', Many [Where [(''tag'', Scalar (SString ''x''))]])]) =
     Inr ''((@tag:{x}))''"
proof -
  have t: "isTag example_schema ''tag''" and s: "\<not> isTag example_schema ''status''"
    by (simp_all add: isTag_def example_schema_def SchemaFieldTypes_TAG_def)
  have e: "buildQuery_each example_schema [Where [(''tag'', Scalar (SString ''x''))]] = Inr [''(@tag:{x})'']"
    using t by (simp add: leaf_def)
  show ?thesis
    using t s e buildQuery_example [OF t s, of "''x''" "[Where [(''tag'', Scalar (SString ''x''))]]" "[''(@tag:{x})'']"]
    by simp
qed

text \<open>
  C5. A filter whose \<^verbatim>\<open>AND\<close> and \<^verbatim>\<open>OR\<close> hold arrays, whose leaves are printable and
  that contains an \<^verbatim>\<open>OR\<close> with no child does not compile: \<open>buildQuery\<close> throws the error of the empty \<^verbatim>\<open>OR\<close>
  (\<open>OR_error\<close>, the InvalidFilter of the specification); \<^verbatim>\<open>{OR: []}\<close> is the smallest such
  filter. An \<^verbatim>\<open>OR\<close> with at least one child, all of which compile, compiles.
\<close>

theorem buildQuery_empty_OR:
  "buildQuery sch (Where [(''OR'', Many [])]) = Inl OR_error \<and>
   (filter_expression w \<and> has_empty_OR w \<longrightarrow> buildQuery sch w = Inl OR_error) \<and>
   (ws \<noteq> [] \<and> buildQuery_each sch ws = Inr cs \<longrightarrow>
      buildQuery sch (Where [(''OR'', Many ws)]) = Inr (''('' @ join '' | '' cs @ '')''))"
proof (intro conjI impI)
  show "buildQuery sch (Where [(''OR'', Many [])]) = Inl OR_error" by simp
next
  assume a: "filter_expression w \<and> has_empty_OR w"
  then obtain e where e: "buildQuery sch w = Inl e"
    using empty_OR_fails(1) by blast
  with a have "e = OR_error" using filter_expression_errors(1) by blast
  with e show "buildQuery sch w = Inl OR_error" by simp
next
  assume "ws \<noteq> [] \<and> buildQuery_each sch ws = Inr cs"
  then show "buildQuery sch (Where [(''OR'', Many ws)]) = Inr (''('' @ join '' | '' cs @ '')'')"
    by (simp add: buildQuery_OR)
qed

theorem buildQuery_empty_OR_witness:
  "filter_expression (Where [(''AND'', Many [Where [(''status'', Scalar (SString ''active''))], Where [(''OR'', Many [])]])]) \<and>
   has_empty_OR (Where [(''AND'', Many [Where [(''status'', Scalar (SString ''active''))], Where [(''OR'', Many [])]])]) \<and>
   buildQuery example_schema
     (Where [(''AND'', Many [Where [(''status'', Scalar (SString ''active''))], Where [(''OR'', Many [])]])]) =
     Inl (Error ''More than one condition required for OR'') \<and>
   buildQuery_each example_schema [Where [(''tag'', Scalar (SString ''x''))]] = Inr [''(@tag:{x})''] \<and>
   buildQuery example_schema (Where [(''OR'', Many [Where [(''tag'', Scalar (SString ''x''))]])]) =
     Inr ''((@tag:{x}))''"
proof -
  let ?w = "Where [(''AND'', Many [Where [(''status'', Scalar (SString ''active''))], Where [(''OR'', Many [])]])]"
  let ?ws = "[Where [(''tag'', Scalar (SString ''x''))]]"
  have a: "filter_expression ?w \<and> has_empty_OR ?w" by simp
  have t: "isTag example_schema ''tag''"
    by (simp add: isTag_def example_schema_def SchemaFieldTypes_TAG_def)
  have e: "?ws \<noteq> [] \<and> buildQuery_each example_schema ?ws = Inr [''(@tag:{x})'']"
    using t by (simp add: leaf_def)
  show ?thesis
    using a e buildQuery_empty_OR [of example_schema ?w ?ws "[''(@tag:{x})'']"]
    by (simp add: OR_error_def)
qed

subsection \<open>Decimal digits\<close>

lemma digit_char_props:
  "d < 10 \<Longrightarrow> isDigit (digit_char d) \<and> digit_val (digit_char d) = d"
  by (simp add: digit_char_def isDigit_def digit_val_def)

lemma digit_char_zero: "digit_char 0 = CHR ''0''"
  by code_simp

lemma digit_char_eq_zero: "d < 10 \<Longrightarrow> (digit_char d = CHR ''0'') = (d = 0)"
proof -
  assume "d < 10"
  then have "digit_val (digit_char d) = d" by (simp add: digit_char_props)
  moreover have "digit_val (CHR ''0'') = 0" by (simp add: digit_val_def)
  ultimately show ?thesis by (auto simp: digit_char_zero)
qed

lemma digits_nonempty: "digits n \<noteq> []"
  by (subst digits.simps) simp

lemma digits_all: "list_all isDigit (digits n)"
proof (induction n rule: digits.induct)
  case (1 n)
  show ?case
  proof (cases "n < 10")
    case True
    then show ?thesis by (subst digits.simps) (simp add: digit_char_props)
  next
    case False
    then show ?thesis using 1 by (subst digits.simps) (simp add: digit_char_props)
  qed
qed

lemma nat_of_digits_snoc: "nat_of_digits (xs @ [c]) = 10 * nat_of_digits xs + digit_val c"
  by (simp add: nat_of_digits_def)

lemma nat_of_digits_append:
  "nat_of_digits (xs @ ys) = nat_of_digits xs * 10 ^ length ys + nat_of_digits ys"
proof (induction ys rule: rev_induct)
  case Nil
  show ?case by (simp add: nat_of_digits_def)
next
  case (snoc y ys)
  have "nat_of_digits (xs @ ys @ [y]) = 10 * nat_of_digits (xs @ ys) + digit_val y"
    using nat_of_digits_snoc [of "xs @ ys" y] by simp
  then show ?case by (simp add: snoc nat_of_digits_snoc algebra_simps)
qed

lemma nat_of_digits_digits: "nat_of_digits (digits n) = n"
proof (induction n rule: digits.induct)
  case (1 n)
  show ?case
  proof (cases "n < 10")
    case True
    then show ?thesis
      by (subst digits.simps) (simp add: nat_of_digits_def digit_char_props)
  next
    case False
    then show ?thesis using 1
      by (subst digits.simps) (simp add: nat_of_digits_snoc digit_char_props)
  qed
qed

lemma nat_of_digits_zeros: "nat_of_digits (replicate z (CHR ''0'')) = 0"
proof (induction z)
  case 0
  show ?case by (simp add: nat_of_digits_def)
next
  case (Suc z)
  have "replicate (Suc z) (CHR ''0'') = replicate z (CHR ''0'') @ ''0''"
    by (simp add: replicate_append_same)
  then show ?case using Suc by (simp add: nat_of_digits_snoc digit_val_def del: replicate_Suc)
qed

lemma hd_digits: "0 < n \<Longrightarrow> hd (digits n) \<noteq> CHR ''0''"
proof (induction n rule: digits.induct)
  case (1 n)
  show ?case
  proof (cases "n < 10")
    case True
    then show ?thesis using 1(2)
      by (subst digits.simps) (simp add: digit_char_eq_zero)
  next
    case False
    then have "0 < n div 10" by simp
    then show ?thesis using False 1(1) digits_nonempty [of "n div 10"]
      by (subst digits.simps) simp
  qed
qed

lemma digits_times_10: "0 < n \<Longrightarrow> digits (n * 10) = digits n @ ''0''"
  by (subst digits.simps) (simp add: digit_char_zero)

lemma digits_times_power: "0 < n \<Longrightarrow> digits (n * 10 ^ z) = digits n @ replicate z (CHR ''0'')"
proof (induction z)
  case 0
  show ?case by simp
next
  case (Suc z)
  have "digits (n * 10 ^ Suc z) = digits ((n * 10 ^ z) * 10)" by (simp add: mult.commute mult.left_commute)
  also have "\<dots> = digits (n * 10 ^ z) @ ''0''" using Suc.prems by (intro digits_times_10) simp
  finally show ?case using Suc by (simp add: replicate_append_same)
qed

lemma strip10_indivisible: "n mod 10 \<noteq> 0 \<Longrightarrow> strip10 n = n"
  by (subst strip10.simps) simp



lemma digits_length_bound: "n < 10 ^ w \<Longrightarrow> 0 < w \<Longrightarrow> length (digits n) \<le> w"
proof (induction n arbitrary: w rule: digits.induct)
  case (1 n)
  show ?case
  proof (cases "n < 10")
    case True
    then show ?thesis using 1(3) by (subst digits.simps) simp
  next
    case False
    obtain w' where w1: "w = Suc w'"
      using 1(3) by (cases w) auto
    have "w' \<noteq> 0"
    proof
      assume "w' = 0"
      then have "n < 10" using 1(2) w1 by simp
      then show False using False by simp
    qed
    then have w: "w = Suc w'" "0 < w'" using w1 by simp_all
    have "n div 10 < 10 ^ w'" using 1(2) w by (simp add: less_mult_imp_div_less mult.commute)
    then have "length (digits (n div 10)) \<le> w'" using 1(1) False w by simp
    then show ?thesis using False w by (subst digits.simps) simp
  qed
qed

subsection \<open>The number parser\<close>

text \<open>
  C3. \<open>numberParser\<close> reads with \<^verbatim>\<open>parseInt\<close>: \<open>3.5\<close> is written as \<^verbatim>\<open>"3.5"\<close> and read
  back as \<open>3\<close>, and \<open>1e21\<close> is written as \<^verbatim>\<open>"1e+21"\<close> and read back as \<open>1\<close>. The
  examples of the claim hold: \<^verbatim>\<open>"42"\<close> is read as \<open>42\<close>, \<open>42\<close> is written as \<^verbatim>\<open>"42"\<close>,
  and \<^verbatim>\<open>"abc"\<close> is refused.
\<close>

theorem numberParser_truncates:
  "parser_serialize numberParser (Finite False 35 1) = Inr ''3.5'' \<and>
   parser_deserialize numberParser ''3.5'' = Inr (Finite False 3 1) \<and>
   parser_serialize numberParser (Finite False 1 22) = Inr ''1e+21'' \<and>
   parser_deserialize numberParser ''1e+21'' = Inr (Finite False 1 1) \<and>
   parser_deserialize numberParser ''42'' = Inr (Number_of_int 42) \<and>
   parser_serialize numberParser (Number_of_int 42) = Inr ''42'' \<and>
   parser_deserialize numberParser ''abc'' = Inl (Error ''Invalid number : abc'')"
  by code_simp

subsection \<open>Integers in the number parser\<close>

lemma strip10_decompose:
  "0 < m \<Longrightarrow> \<exists>z. m = strip10 m * 10 ^ z \<and> 0 < strip10 m \<and> strip10 m mod 10 \<noteq> 0"
proof (induction m rule: strip10.induct)
  case (1 n)
  show ?case
  proof (cases "n mod 10 = 0")
    case True
    then have d: "0 < n div 10" "n = (n div 10) * 10" using "1.prems" by auto
    have s: "strip10 n = strip10 (n div 10)"
      using True "1.prems" by (subst strip10.simps) simp
    obtain z where z: "n div 10 = strip10 (n div 10) * 10 ^ z" "0 < strip10 (n div 10)"
        "strip10 (n div 10) mod 10 \<noteq> 0"
      using "1.IH" True "1.prems" d(1) by auto
    have "n = strip10 n * 10 ^ Suc z"
      using d(2) z(1) s by simp
    then show ?thesis using z s by metis
  next
    case False
    then have "strip10 n = n" by (rule strip10_indivisible)
    then show ?thesis using False "1.prems" by (intro exI [of _ 0]) simp
  qed
qed

lemma positive_toString_integer:
  assumes "0 < m" "length (digits m) \<le> 21"
  shows "positive_toString (strip10 m) (int (length (digits m))) = digits m"
proof -
  obtain z where z: "m = strip10 m * 10 ^ z" "0 < strip10 m"
    using strip10_decompose [OF assms(1)] by blast
  have d: "digits m = digits (strip10 m) @ replicate z (CHR ''0'')"
    using digits_times_power [OF z(2), of z] z(1) by simp
  have l: "length (digits m) = length (digits (strip10 m)) + z"
    using d by simp
  show ?thesis
    using assms(2) l d by (simp add: positive_toString_def Let_def)
qed

lemma parseInt_digits:
  assumes "0 < m"
  shows "parseInt ((if neg then ''-'' else []) @ digits m) = Number_of_nat neg m"
proof -
  obtain c cs where c: "digits m = c # cs"
    using digits_nonempty [of m] by (cases "digits m") auto
  have cd: "isDigit c" "c \<noteq> CHR ''0''"
    using digits_all [of m] hd_digits [OF assms] c by simp_all
  then have cw: "\<not> isWhiteSpace c" "c \<noteq> CHR ''-''" "c \<noteq> CHR ''+''"
    by (auto simp: isDigit_def isWhiteSpace_def)
  have t: "takeWhile isDigit cs = cs"
    using digits_all [of m] c by (simp add: takeWhile_eq_all_conv list_all_iff)
  have w: "\<not> isWhiteSpace (CHR ''-'')" by (simp add: isWhiteSpace_def)
  show ?thesis
    using cd cw w nat_of_digits_digits [of m]
    by (simp add: parseInt_def trimStart_def startsWith_def Let_def c t)
qed

lemma numberParser_integers:
  assumes "\<bar>i\<bar> < 10 ^ 21"
  shows "round_trip numberParser (Number_of_int i) = Inr (Number_of_int i)"
proof (cases "i = 0")
  case True
  have "round_trip numberParser Zero = Inr Zero" by code_simp
  then show ?thesis using True by (simp add: Number_of_int_def Number_of_nat_def)
next
  case False
  let ?m = "nat \<bar>i\<bar>"
  have m: "0 < ?m" "?m < 10 ^ 21" using False assms by (simp_all add: nat_less_iff)
  have l: "length (digits ?m) \<le> 21" using digits_length_bound [OF m(2)] by simp
  have n: "Number_of_int i = Finite (i < 0) (strip10 ?m) (int (length (digits ?m)))"
    using m by (simp add: Number_of_int_def Number_of_nat_def)
  have s: "Number_toString (Number_of_int i) = (if i < 0 then ''-'' else []) @ digits ?m"
    using positive_toString_integer [OF m(1) l] n by simp
  have p: "parseInt ((if i < 0 then ''-'' else []) @ digits ?m) = Number_of_int i"
    using parseInt_digits [OF m(1), of "i < 0"] by (simp add: Number_of_int_def)
  have "Number_of_int i \<noteq> NaN" using n by simp
  then show ?thesis
    using s p by (simp add: round_trip_def numberParser_def isNaN_def Let_def)
qed

text \<open>\<open>-0\<close> is written as \<^verbatim>\<open>0\<close> and read back as \<open>+0\<close>; the text \<^verbatim>\<open>-0\<close> is read as \<open>-0\<close>.\<close>

lemma numberParser_negative_zero:
  "round_trip numberParser NegZero = Inr Zero"
  "parser_deserialize numberParser ''-0'' = Inr NegZero"
  by code_simp+

subsection \<open>Strings in JSON text\<close>








subsection \<open>Numbers in JSON text\<close>

lemma zeros_all: "list_all isDigit (replicate z (CHR ''0''))"
  by (simp add: list_all_iff isDigit_def)














subsection \<open>Dates in ISO format\<close>

lemma pad_length: "length (digits n) \<le> w \<Longrightarrow> length (pad w n) = w"
  by (simp add: pad_def)

lemma pad_all: "list_all isDigit (pad w n)"
  by (simp add: pad_def zeros_all digits_all)

lemma pad_value: "nat_of_digits (pad w n) = n"
  by (simp add: pad_def nat_of_digits_append nat_of_digits_zeros nat_of_digits_digits)

lemma number_field_pad:
  "0 < w \<Longrightarrow> n < 10 ^ w \<Longrightarrow> number_field (pad w n) = Some n \<and> length (pad w n) = w"
  using digits_length_bound [of n w]
  by (auto simp: number_field_def pad_all pad_value pad_length) (simp add: pad_def digits_nonempty)










subsection \<open>The parser consumes text\<close>

lemma parse_string_shorter: "parse_string cs = Some (s, r) \<Longrightarrow> length r < length cs"
proof (induction cs arbitrary: s r rule: parse_string.induct)
  case 1
  then show ?case by simp
next
  case (2 c cs)
  show ?case
    using "2.prems" "2.IH"
    by (auto split: if_splits list.splits option.splits) fastforce+
qed

lemma parse_int_part_shorter: "parse_int_part s = Some (ip, r) \<Longrightarrow> length r < length s"
  by (cases s) (auto simp: parse_int_part_def le_imp_less_Suc length_dropWhile_le split: if_splits)

lemma parse_frac_part_shorter: "parse_frac_part s = Some (fp, r) \<Longrightarrow> length r \<le> length s"
  using length_dropWhile_le [of isDigit "drop 1 s"]
  by (auto simp: parse_frac_part_def split: if_splits)

lemma parse_exp_part_shorter: "parse_exp_part s = Some (e, r) \<Longrightarrow> length r \<le> length s"
  using length_dropWhile_le [of isDigit "drop 1 s"] length_dropWhile_le [of isDigit "drop 2 s"]
  by (auto simp: parse_exp_part_def Let_def split: if_splits)

lemma parse_unsigned_shorter: "parse_unsigned neg s = Some (n, r) \<Longrightarrow> length r < length s"
  by (auto simp: parse_unsigned_def split: option.splits
      dest!: parse_int_part_shorter parse_frac_part_shorter parse_exp_part_shorter)

lemma parse_number_shorter: "parse_number s = Some (n, r) \<Longrightarrow> length r < length s"
  by (auto simp: parse_number_def split: if_splits dest!: parse_unsigned_shorter)


lemma parse_shorter:
  "parse_value s = Some (v, r) \<Longrightarrow> length r < length s"
  "parse_elements s = Some (vs, r) \<Longrightarrow> length r < length s"
  "parse_members s = Some (kvs, r) \<Longrightarrow> length r < length s"
proof (induction s and s and s arbitrary: v r and vs r and kvs r
    rule: parse_value_parse_elements_parse_members.induct)
  case (1 s)
  note p = "1.prems" [unfolded parse_value.simps [of s]]
  from p obtain c t where ct: "skip_ws s = c # t"
    by (cases "skip_ws s") auto
  have lt: "length t < length s" using ct by (rule skip_ws_Cons_shorter)
  have lc: "length (c # t) \<le> length s" using ct length_skip_ws [of s] by simp
  consider (arr) "c = CHR ''[''" | (obj) "c \<noteq> CHR ''[''" "c = CHR ''{''"
    | (str) "c \<noteq> CHR ''[''" "c \<noteq> CHR ''{''" "c = dquote"
    | (other) "c \<noteq> CHR ''[''" "c \<noteq> CHR ''{''" "c \<noteq> dquote"
    by blast
  then show ?case
  proof cases
    case arr
    show ?thesis
    proof (cases "startsWith (skip_ws t) '']''")
      case True
      then have "r = drop 1 (skip_ws t)" using p ct arr by simp
      then show ?thesis using length_skip_ws [of t] lt by simp
    next
      case False
      then obtain vs where e: "parse_elements t = Some (vs, r)"
        using p ct arr by (auto split: option.splits)
      have "length r < length t" using "1.IH"(1) [OF ct arr False e] .
      then show ?thesis using lt by simp
    qed
  next
    case obj
    show ?thesis
    proof (cases "startsWith (skip_ws t) ''}''")
      case True
      then have "r = drop 1 (skip_ws t)" using p ct obj by simp
      then show ?thesis using length_skip_ws [of t] lt by simp
    next
      case False
      then obtain kvs where e: "parse_members t = Some (kvs, r)"
        using p ct obj by (auto split: option.splits)
      have "length r < length t" using "1.IH"(2) [OF ct obj False e] .
      then show ?thesis using lt by simp
    qed
  next
    case str
    then obtain x where "parse_string t = Some (x, r)"
      using p ct by (auto split: option.splits)
    then have "length r < length t" by (rule parse_string_shorter)
    then show ?thesis using lt by simp
  next
    case other
    have "length r < length (c # t)"
    proof (cases "startsWith (c # t) ''true'' \<or> startsWith (c # t) ''false'' \<or> startsWith (c # t) ''null''")
      case True
      then have "r = drop 4 (c # t) \<or> r = drop 5 (c # t)"
        using p ct other by (auto split: if_splits)
      then show ?thesis by auto
    next
      case False
      then obtain n where "parse_number (c # t) = Some (n, r)"
        using p ct other by (auto split: option.splits)
      then show ?thesis by (rule parse_number_shorter)
    qed
    then show ?thesis using lc by simp
  qed
next
  case (2 s)
  note p = "2.prems" [unfolded parse_elements.simps [of s]]
  from p obtain x r1 where v: "parse_value s = Some (x, r1)"
    by (cases "parse_value s") auto
  have l1: "length r1 < length s" using "2.IH"(1) [OF v] .
  from p v obtain c t where ct: "skip_ws r1 = c # t"
    by (cases "skip_ws r1") auto
  have lt: "length t < length r1" using ct by (rule skip_ws_Cons_shorter)
  show ?case
  proof (cases "c = CHR '']''")
    case True
    then have "r = t" using p v ct by simp
    then show ?thesis using lt l1 by simp
  next
    case False
    then have g: "c = CHR '','' \<and> length t < length s"
      using p v ct by (auto split: if_splits)
    then obtain ws where e: "parse_elements t = Some (ws, r)"
      using p v ct False by (auto split: option.splits)
    have "length r < length t"
      using "2.IH"(2) [OF v refl ct False g e] .
    then show ?thesis using g by simp
  qed
next
  case (3 s)
  note p = "3.prems" [unfolded parse_members.simps [of s]]
  from p obtain q t where qt: "skip_ws s = q # t"
    by (cases "skip_ws s") auto
  have q: "q = dquote" using p qt by (auto split: if_splits)
  from p qt q obtain k r1 where ps: "parse_string t = Some (k, r1)"
    by (cases "parse_string t") auto
  from p qt q ps obtain c r2 where c2: "skip_ws r1 = c # r2"
    by (cases "skip_ws r1") auto
  have g: "c = CHR '':'' \<and> length r2 < length s"
    using p qt q ps c2 by (auto split: if_splits)
  from p qt q ps c2 g obtain x r3 where pv: "parse_value r2 = Some (x, r3)"
    by (cases "parse_value r2") auto
  have l3: "length r3 < length r2"
    using "3.IH"(1) [OF qt q ps refl c2 g pv] .
  from p qt q ps c2 g pv obtain d r4 where d4: "skip_ws r3 = d # r4"
    by (cases "skip_ws r3") auto
  have l4: "length r4 < length r3" using d4 by (rule skip_ws_Cons_shorter)
  show ?case
  proof (cases "d = CHR ''}''")
    case True
    then have "r = r4" using p qt q ps c2 g pv d4 by simp
    then show ?thesis using l4 l3 g by simp
  next
    case False
    then have g2: "d = CHR '','' \<and> length r4 < length s"
      using p qt q ps c2 g pv d4 by (auto split: if_splits)
    then obtain ms where e: "parse_members r4 = Some (ms, r)"
      using p qt q ps c2 g pv d4 False by (auto split: option.splits)
    have "length r < length r4"
      using "3.IH"(2) [OF qt q ps refl c2 g pv refl d4 False g2 e] .
    then show ?thesis using g2 by simp
  qed
qed


text \<open>
  So the length tests in \<open>parse_elements\<close> and \<open>parse_members\<close> never fail: the two
  functions satisfy the equations without the tests.
\<close>

lemma parse_elements_unguarded:
  "parse_elements s =
     (case parse_value s of
        None \<Rightarrow> None
      | Some (v, r) \<Rightarrow>
          (case skip_ws r of
             [] \<Rightarrow> None
           | c # r' \<Rightarrow>
               if c = CHR '']'' then Some ([v], r')
               else if c = CHR '','' then
                 (case parse_elements r' of
                    None \<Rightarrow> None
                  | Some (vs, r'') \<Rightarrow> Some (v # vs, r''))
               else None))"
proof (cases "parse_value s")
  case None
  then show ?thesis by (subst parse_elements.simps) simp
next
  case (Some a)
  obtain v r where a: "a = (v, r)" by (cases a)
  have l: "length r < length s" using Some a parse_shorter(1) by simp
  show ?thesis
  proof (cases "skip_ws r")
    case Nil
    then show ?thesis using Some a by (subst parse_elements.simps) simp
  next
    case (Cons c r')
    then have "length r' < length s" using skip_ws_Cons_shorter [OF Cons] l by simp
    then show ?thesis using Some a Cons by (subst parse_elements.simps) simp
  qed
qed

lemma parse_members_unguarded:
  "parse_members s =
     (case skip_ws s of
        [] \<Rightarrow> None
      | q # r \<Rightarrow>
          if q = dquote then
            (case parse_string r of
               None \<Rightarrow> None
             | Some (k, r1) \<Rightarrow>
                 (case skip_ws r1 of
                    [] \<Rightarrow> None
                  | c # r2 \<Rightarrow>
                      if c = CHR '':'' then
                        (case parse_value r2 of
                           None \<Rightarrow> None
                         | Some (v, r3) \<Rightarrow>
                             (case skip_ws r3 of
                                [] \<Rightarrow> None
                              | d # r4 \<Rightarrow>
                                  if d = CHR ''}'' then Some ([(k, v)], r4)
                                  else if d = CHR '','' then
                                    (case parse_members r4 of
                                       None \<Rightarrow> None
                                     | Some (kvs, r5) \<Rightarrow> Some ((k, v) # kvs, r5))
                                  else None))
                      else None))
          else None)"
proof -
  have g1: "length r2 < length s"
    if "skip_ws s = q # r" "parse_string r = Some (k, r1)" "skip_ws r1 = c # r2" for q r k r1 c r2
    using skip_ws_Cons_shorter [OF that(1)] parse_string_shorter [OF that(2)]
      skip_ws_Cons_shorter [OF that(3)] by simp
  have g2: "length r4 < length s"
    if "skip_ws s = q # r" "parse_string r = Some (k, r1)" "skip_ws r1 = c # r2"
      "parse_value r2 = Some (v, r3)" "skip_ws r3 = d # r4" for q r k r1 c r2 v r3 d r4
    using g1 [OF that(1,2,3)] parse_shorter(1) [OF that(4)] skip_ws_Cons_shorter [OF that(5)]
    by simp
  show ?thesis
    by (subst parse_members.simps)
      (auto split: list.splits option.splits dest: g1 g2)
qed

subsection \<open>Values in JSON text\<close>























subsection \<open>Replacing and restoring Dates and \<^verbatim>\<open>undefined\<close>\<close>












subsection \<open>The object parsers\<close>


text \<open>\<^verbatim>\<open>JSON.stringify\<close> returns a string wherever the two parsers call it.\<close>

lemma recursiveReplace_defined:
  "recursiveReplace v = Inr x \<Longrightarrow> v \<noteq> JUndefined \<Longrightarrow> JSON_stringify x \<noteq> None"
  by (cases v) (auto split: sum.splits)

lemma recursiveSerialize_defined:
  "recursiveSerialize v = Inr x \<Longrightarrow> JSON_stringify x \<noteq> None"
  by (cases v) (auto split: sum.splits)







text \<open>
  C2, as stated, fails for the \<open>objectParser\<close> built on \<^verbatim>\<open>recursiveSerialize\<close>: it
  writes \<^verbatim>\<open>undefined\<close> as the JSON text of the sentinel, with its quotes, and
  \<^verbatim>\<open>JSON.parse\<close> refuses the bare sentinel.
\<close>

theorem objectParser_utils_sentinel_counterexample:
  "parser_serialize objectParser_utils JUndefined = Inr (dquote # ''REDIS_UNDEFINED'' @ [dquote]) \<and>
   parser_serialize objectParser_utils JUndefined \<noteq> Inr ''REDIS_UNDEFINED'' \<and>
   parser_deserialize objectParser_utils ''REDIS_UNDEFINED'' = Inl SyntaxError"
  by code_simp

text \<open>
  C2, amended. The \<open>objectParser\<close> of \<^verbatim>\<open>string-parsers.ts\<close> writes \<^verbatim>\<open>undefined\<close> as the
  sentinel \<^verbatim>\<open>REDIS_UNDEFINED\<close> and reads the sentinel as \<^verbatim>\<open>undefined\<close>. The
  \<open>objectParser\<close> built on \<^verbatim>\<open>recursiveSerialize\<close> and \<^verbatim>\<open>recursiveParse\<close> writes
  \<^verbatim>\<open>undefined\<close> as the JSON string of the sentinel and reads that text as
  \<^verbatim>\<open>undefined\<close>.
\<close>

theorem objectParser_sentinel:
  "parser_serialize objectParser JUndefined = Inr ''REDIS_UNDEFINED'' \<and>
   parser_deserialize objectParser ''REDIS_UNDEFINED'' = Inr JUndefined \<and>
   parser_serialize objectParser_utils JUndefined = Inr (QuoteJSONString ''REDIS_UNDEFINED'') \<and>
   parser_deserialize objectParser_utils (QuoteJSONString ''REDIS_UNDEFINED'') = Inr JUndefined"
  by code_simp

end
